theory Spec2Isabelle
  imports Complex_Main "HOL-Library.Log_Nat"
begin

section \<open>The resilient HTTP request core of the Chaindoc server SDK\<close>

text \<open>
  A shallow embedding of \<^verbatim>\<open>src/client.ts\<close> (class \<^verbatim>\<open>HttpClient\<close>) together with the
  configuration types of \<^verbatim>\<open>src/types/index.ts\<close>.

  Conventions of the embedding:
  \<^item> JavaScript numbers that hold durations are IEEE 754 binary64 values, type \<open>double\<close>
    below, with correctly rounded arithmetic; numbers that count attempts are
    \<^typ>\<open>int\<close> or \<^typ>\<open>nat\<close>; HTTP statuses are \<^typ>\<open>nat\<close>.
  \<^item> An optional property is an \<open>option\<close>; \<open>None\<close> is JavaScript's \<^verbatim>\<open>undefined\<close>.
  \<^item> A thrown exception is the \<open>Inl\<close> branch of a sum.
  \<^item> The environment (the transport \<^verbatim>\<open>fetch\<close>, \<^verbatim>\<open>Math.random\<close>, \<^verbatim>\<open>JSON.stringify\<close>) is a
    parameter; the observable effects (transport calls, sleeps, body decodes, multipart
    forms built) are logged in an explicit world that is threaded through the calls.
\<close>

subsection \<open>JavaScript values\<close>

datatype jsval =
    JUndefined
  | JNull
  | JBool bool
  | JNum real
  | JNaN
  | JStr string
  | JArr "jsval list"
  | JObj "(string \<times> jsval) list"
  | JBigInt int
  | JFunction
  | JSymbol

text \<open>Truthiness, as used by \<^verbatim>\<open>x ? a : b\<close>, \<^verbatim>\<open>!x\<close> and \<^verbatim>\<open>x && y\<close>.\<close>

fun truthy :: "jsval \<Rightarrow> bool" where
  "truthy JUndefined = False"
| "truthy JNull = False"
| "truthy (JBool b) = b"
| "truthy (JNum x) = (x \<noteq> 0)"
| "truthy JNaN = False"
| "truthy (JStr s) = (s \<noteq> [])"
| "truthy (JArr xs) = True"
| "truthy (JObj kvs) = True"
| "truthy (JBigInt n) = (n \<noteq> 0)"
| "truthy JFunction = True"
| "truthy JSymbol = True"

text \<open>\<^verbatim>\<open>s.startsWith(p)\<close> and \<^verbatim>\<open>s.includes(e)\<close> on strings.\<close>

definition startsWith :: "string \<Rightarrow> string \<Rightarrow> bool" where
  "startsWith s p = (take (length p) s = p)"

fun str_includes :: "string \<Rightarrow> string \<Rightarrow> bool" where
  "str_includes [] e = (e = [])"
| "str_includes (c # s) e = (startsWith (c # s) e \<or> str_includes s e)"

text \<open>\<^verbatim>\<open>Math.round\<close> on a finite value: the nearest integer, a tie going up.\<close>

definition Math_round :: "real \<Rightarrow> int" where
  "Math_round x = \<lfloor>x + 1 / 2\<rfloor>"

subsection \<open>Numbers\<close>

text \<open>
  A JavaScript number is an IEEE 754 binary64 value: a finite value, an infinity or NaN.
  The sign of zero is not modelled (no operation used here tells the two zeros apart).
\<close>

datatype double = Fin real | PInf | NInf | NaN

definition pow2 :: "int \<Rightarrow> real" where
  "pow2 i = (if 0 \<le> i then 2 ^ nat i else 1 / 2 ^ nat (- i))"

text \<open>For \<open>a > 0\<close>, the exponent \<open>e\<close> with \<open>pow2 e \<le> a < pow2 (e + 1)\<close>.\<close>

definition ilog2 :: "real \<Rightarrow> int" where
  "ilog2 a = (if 1 \<le> a then bitlen \<lfloor>a\<rfloor> - 1 else - bitlen (\<lceil>1 / a\<rceil> - 1))"

text \<open>Rounding to the nearest integer, a tie going to the even one.\<close>

definition rne :: "real \<Rightarrow> int" where
  "rne t =
     (let f = \<lfloor>t\<rfloor>; r = t - of_int f
      in if r < 1 / 2 then f else if 1 / 2 < r then f + 1 else if even f then f else f + 1)"

text \<open>
  The exponent of the unit in the last place of \<open>a > 0\<close>: 52 below the exponent of \<open>a\<close>,
  and that of the subnormal range below \<open>pow2 (- 1022)\<close>.
\<close>

definition ulp_exp :: "real \<Rightarrow> int" where
  "ulp_exp a = max (ilog2 a) (- 1022) - 52"

text \<open>\<open>a > 0\<close> rounded to a multiple of its unit in the last place.\<close>

definition round_mag :: "real \<Rightarrow> real" where
  "round_mag a = of_int (rne (a / pow2 (ulp_exp a))) * pow2 (ulp_exp a)"

text \<open>
  The binary64 value of a real result: round to nearest, ties to even, and overflow to an
  infinity when the rounded magnitude reaches \<open>pow2 1024\<close>.
\<close>

definition binary64 :: "real \<Rightarrow> double" where
  "binary64 x =
     (if x = 0 then Fin 0
      else if pow2 1024 \<le> round_mag \<bar>x\<bar> then (if 0 < x then PInf else NInf)
      else Fin (if 0 < x then round_mag \<bar>x\<bar> else - round_mag \<bar>x\<bar>))"

text \<open>A \<open>double\<close> that is a binary64 value.\<close>

fun is_double :: "double \<Rightarrow> bool" where
  "is_double (Fin x) = (binary64 x = Fin x)"
| "is_double d = True"

text \<open>The order \<^verbatim>\<open><=\<close> of numbers: NaN compares with nothing.\<close>

fun d_le :: "double \<Rightarrow> double \<Rightarrow> bool" where
  "d_le NaN y = False"
| "d_le x NaN = False"
| "d_le NInf y = True"
| "d_le x PInf = True"
| "d_le (Fin x) (Fin y) = (x \<le> y)"
| "d_le x y = False"

fun d_neg :: "double \<Rightarrow> double" where
  "d_neg (Fin x) = Fin (- x)"
| "d_neg PInf = NInf"
| "d_neg NInf = PInf"
| "d_neg NaN = NaN"

text \<open>\<^verbatim>\<open>x * y\<close>.\<close>

fun d_mul :: "double \<Rightarrow> double \<Rightarrow> double" where
  "d_mul NaN y = NaN"
| "d_mul x NaN = NaN"
| "d_mul (Fin x) (Fin y) = binary64 (x * y)"
| "d_mul (Fin x) PInf = (if x = 0 then NaN else if 0 < x then PInf else NInf)"
| "d_mul (Fin x) NInf = (if x = 0 then NaN else if 0 < x then NInf else PInf)"
| "d_mul PInf (Fin y) = (if y = 0 then NaN else if 0 < y then PInf else NInf)"
| "d_mul NInf (Fin y) = (if y = 0 then NaN else if 0 < y then NInf else PInf)"
| "d_mul PInf PInf = PInf"
| "d_mul PInf NInf = NInf"
| "d_mul NInf PInf = NInf"
| "d_mul NInf NInf = PInf"

text \<open>\<^verbatim>\<open>x + y\<close> and \<^verbatim>\<open>x - y\<close>.\<close>

fun d_add :: "double \<Rightarrow> double \<Rightarrow> double" where
  "d_add NaN y = NaN"
| "d_add x NaN = NaN"
| "d_add (Fin x) (Fin y) = binary64 (x + y)"
| "d_add PInf NInf = NaN"
| "d_add NInf PInf = NaN"
| "d_add PInf y = PInf"
| "d_add NInf y = NInf"
| "d_add x PInf = PInf"
| "d_add x NInf = NInf"

definition d_sub :: "double \<Rightarrow> double \<Rightarrow> double" where
  "d_sub x y = d_add x (d_neg y)"

text \<open>\<^verbatim>\<open>Math.min(x, y)\<close>: NaN when an argument is NaN.\<close>

fun Math_min :: "double \<Rightarrow> double \<Rightarrow> double" where
  "Math_min NaN y = NaN"
| "Math_min x NaN = NaN"
| "Math_min x y = (if d_le x y then x else y)"

text \<open>\<^verbatim>\<open>Math.pow(2, n)\<close> for a loop counter \<open>n\<close>.\<close>

definition Math_pow2 :: "nat \<Rightarrow> double" where
  "Math_pow2 n = binary64 (2 ^ n)"

text \<open>\<^verbatim>\<open>Math.round\<close> on numbers: infinities and NaN are returned as they are.\<close>

fun Math_round_d :: "double \<Rightarrow> double" where
  "Math_round_d (Fin x) = Fin (of_int (Math_round x))"
| "Math_round_d d = d"

subsection \<open>Strings of numbers\<close>

text \<open>The decimal rendering of a status inside a template literal.\<close>

fun show_nat :: "nat \<Rightarrow> string" where
  "show_nat n =
     (if n < 10 then [''0123456789'' ! n]
      else show_nat (n div 10) @ [''0123456789'' ! (n mod 10)])"

declare show_nat.simps [simp del]

subsection \<open>Errors and configuration\<close>

text \<open>
  \<^verbatim>\<open>class ChaindocError extends Error\<close> with the public fields \<^verbatim>\<open>statusCode?\<close>,
  \<^verbatim>\<open>response?\<close> and \<^verbatim>\<open>isRetryable = false\<close>.
\<close>

record ChaindocError =
  message :: string
  statusCode :: "nat option"
  response :: jsval
  isRetryable :: bool

definition ChaindocError_new :: "string \<Rightarrow> nat option \<Rightarrow> jsval \<Rightarrow> bool \<Rightarrow> ChaindocError" where
  "ChaindocError_new msg sc resp retryable =
     \<lparr>message = msg, statusCode = sc, response = resp, isRetryable = retryable\<rparr>"

text \<open>\<^verbatim>\<open>new ChaindocError(msg)\<close> with the remaining arguments omitted.\<close>

definition ChaindocError_msg :: "string \<Rightarrow> ChaindocError" where
  "ChaindocError_msg msg = ChaindocError_new msg None JUndefined False"

datatype ChaindocEnvironment = Production | Staging | Development

record RetryConfig =
  rc_maxRetries :: "int option"
  rc_baseDelayMs :: "double option"
  rc_maxDelayMs :: "double option"

text \<open>
  \<^verbatim>\<open>interface ChaindocConfig\<close>. The interface declares \<^verbatim>\<open>secretKey\<close>, \<^verbatim>\<open>environment\<close>,
  \<^verbatim>\<open>timeout\<close>, \<^verbatim>\<open>headers\<close> and \<^verbatim>\<open>retry\<close>. The constructor of \<^verbatim>\<open>HttpClient\<close> also reads a
  property \<^verbatim>\<open>baseUrl\<close> of the object it is given, which the interface does not declare;
  \<open>cfg_baseUrl\<close> is that property (\<open>None\<close> for every object that has just the declared
  properties). \<open>cfg_secretKey = None\<close> is a configuration object without a key.
\<close>

record ChaindocConfig =
  cfg_secretKey :: "string option"
  cfg_environment :: "ChaindocEnvironment option"
  cfg_timeout :: "double option"
  cfg_headers :: "(string \<rightharpoonup> string) option"
  cfg_retry :: "RetryConfig option"
  cfg_baseUrl :: "string option"

text \<open>\<^verbatim>\<open>Required<RetryConfig>\<close>: the retry policy held by the client.\<close>

record RetryPolicy =
  maxRetries :: int
  baseDelayMs :: double
  maxDelayMs :: double

record HttpClient =
  baseUrl :: string
  secretKey :: string
  timeout :: double
  defaultHeaders :: "string \<rightharpoonup> string"
  retryConfig :: RetryPolicy

definition DEFAULT_BASE_URL :: string where
  "DEFAULT_BASE_URL = ''https://api.chaindoc.io''"

definition DEFAULT_TIMEOUT :: double where
  "DEFAULT_TIMEOUT = Fin 30000"

definition DEFAULT_MAX_RETRIES :: int where
  "DEFAULT_MAX_RETRIES = 3"

definition DEFAULT_BASE_DELAY_MS :: double where
  "DEFAULT_BASE_DELAY_MS = Fin 1000"

definition DEFAULT_MAX_DELAY_MS :: double where
  "DEFAULT_MAX_DELAY_MS = Fin 10000"

text \<open>
  The addresses the documentation of \<^verbatim>\<open>ChaindocConfig.environment\<close> gives for each
  environment (doc comment in \<^verbatim>\<open>src/types/index.ts\<close>, table in the README).
\<close>

fun documented_url :: "ChaindocEnvironment \<Rightarrow> string" where
  "documented_url Production = ''https://api.chaindoc.io''"
| "documented_url Staging = ''https://api-demo.chaindoc.io''"
| "documented_url Development = ''https://api-demo.chaindoc.io''"

text \<open>\<^verbatim>\<open>s.replace(/\/$/, "")\<close>: one trailing slash is removed.\<close>

definition strip_trailing_slash :: "string \<Rightarrow> string" where
  "strip_trailing_slash s = (if s \<noteq> [] \<and> last s = CHR ''/'' then butlast s else s)"

text \<open>\<^verbatim>\<open>a ?? b\<close> on an optional value.\<close>

definition nullish :: "'a option \<Rightarrow> 'a \<Rightarrow> 'a" where
  "nullish x d = (case x of None \<Rightarrow> d | Some v \<Rightarrow> v)"

text \<open>
  The constructor. \<^verbatim>\<open>!config.secretKey\<close> holds for an absent key and for the empty
  string. \<^verbatim>\<open>config.retry?.maxRetries\<close> is \<^verbatim>\<open>undefined\<close> when \<^verbatim>\<open>retry\<close> is.
\<close>

definition HttpClient_new :: "ChaindocConfig \<Rightarrow> ChaindocError + HttpClient" where
  "HttpClient_new config =
     (case cfg_secretKey config of
        None \<Rightarrow> Inl (ChaindocError_msg ''secretKey is required'')
      | Some key \<Rightarrow>
          if key = [] then Inl (ChaindocError_msg ''secretKey is required'')
          else if \<not> startsWith key ''sk_''
            then Inl (ChaindocError_msg ''secretKey must start with \"sk_\"'')
          else Inr
            \<lparr>baseUrl = strip_trailing_slash (nullish (cfg_baseUrl config) DEFAULT_BASE_URL),
             secretKey = key,
             timeout = nullish (cfg_timeout config) DEFAULT_TIMEOUT,
             defaultHeaders =
               [''Content-Type'' \<mapsto> ''application/json'',
                ''Authorization'' \<mapsto> ''Bearer '' @ key]
               ++ (case cfg_headers config of None \<Rightarrow> Map.empty | Some h \<Rightarrow> h),
             retryConfig =
               \<lparr>maxRetries =
                  nullish (Option.bind (cfg_retry config) rc_maxRetries) DEFAULT_MAX_RETRIES,
                baseDelayMs =
                  nullish (Option.bind (cfg_retry config) rc_baseDelayMs) DEFAULT_BASE_DELAY_MS,
                maxDelayMs =
                  nullish (Option.bind (cfg_retry config) rc_maxDelayMs) DEFAULT_MAX_DELAY_MS\<rparr>\<rparr>)"

subsection \<open>Backoff delay\<close>

text \<open>
  \<^verbatim>\<open>getRetryDelay(attempt)\<close>; \<open>rnd\<close> is the value \<^verbatim>\<open>Math.random()\<close> returns in this call.
  Every operation is the binary64 one, in the order of the source:
  \<^verbatim>\<open>cappedDelay * 0.25 * (Math.random() * 2 - 1)\<close> multiplies from the left.
\<close>

definition getRetryDelay :: "HttpClient \<Rightarrow> real \<Rightarrow> nat \<Rightarrow> double" where
  "getRetryDelay this rnd attempt =
     (let exponentialDelay = d_mul (baseDelayMs (retryConfig this)) (Math_pow2 attempt);
          cappedDelay = Math_min exponentialDelay (maxDelayMs (retryConfig this));
          jitter = d_mul (d_mul cappedDelay (Fin 0.25))
                     (d_sub (d_mul (Fin rnd) (Fin 2)) (Fin 1))
      in Math_round_d (d_add cappedDelay jitter))"

text \<open>
  The clamped exponential delay \<open>min (baseDelay * 2 ^ a) maxDelay\<close> the specification
  speaks of, as the code computes it.
\<close>

definition clamped_delay :: "HttpClient \<Rightarrow> nat \<Rightarrow> double" where
  "clamped_delay this a =
     Math_min (d_mul (baseDelayMs (retryConfig this)) (Math_pow2 a))
       (maxDelayMs (retryConfig this))"

subsection \<open>The transport and the observable world\<close>

datatype http_method = GET | POST | PUT | DELETE

text \<open>
  \<^verbatim>\<open>interface RequestOptions\<close>. \<open>opt_body\<close> has type \<^verbatim>\<open>unknown\<close>; an omitted body is
  \<open>JUndefined\<close>.
\<close>

record RequestOptions =
  opt_method :: "http_method option"
  opt_body :: jsval
  opt_headers :: "(string \<rightharpoonup> string) option"
  opt_timeout :: "double option"
  opt_noRetry :: "bool option"

datatype Blob = Blob string

text \<open>
  The body handed to \<^verbatim>\<open>fetch\<close>: absent, a string, or a \<^verbatim>\<open>FormData\<close> object, which is
  a reference into the heap of forms of the world.
\<close>

datatype fetch_body = NoBody | TextBody string | FormBody nat

text \<open>
  One call of \<^verbatim>\<open>fetch(url, init)\<close>. \<open>call_abort_after\<close> is the delay of the timer that
  aborts the call's \<^verbatim>\<open>AbortController\<close>.
\<close>

record fetch_call =
  call_url :: string
  call_method :: http_method
  call_headers :: "string \<rightharpoonup> string"
  call_body :: fetch_body
  call_abort_after :: double

text \<open>
  A \<^verbatim>\<open>Response\<close>: \<open>resp_headers\<close> is \<^verbatim>\<open>response.headers.get\<close>; \<open>json_result\<close> is what
  \<^verbatim>\<open>response.json()\<close> resolves to, \<open>None\<close> when it rejects. \<^verbatim>\<open>response.ok\<close> is defined
  by the Fetch standard as a status in 200..299.
\<close>

record Response =
  status :: nat
  resp_headers :: "string \<rightharpoonup> string"
  json_result :: "jsval option"

definition ok :: "Response \<Rightarrow> bool" where
  "ok r = (200 \<le> status r \<and> status r \<le> 299)"

text \<open>
  What a rejected \<^verbatim>\<open>fetch\<close> throws: an instance of \<^verbatim>\<open>Error\<close> with its \<^verbatim>\<open>name\<close> and
  \<^verbatim>\<open>message\<close>, or some other value.
\<close>

datatype js_thrown = ErrorObj string string | NonError

datatype fetch_outcome = Responded Response | Rejected js_thrown

text \<open>
  What \<^verbatim>\<open>JSON.stringify(value)\<close> does: it returns a string, or returns \<^verbatim>\<open>undefined\<close> (for a
  function or a symbol), or throws (for a BigInt or a cyclic structure).
\<close>

datatype stringify_result = Serialized string | NotSerialized | StringifyThrows js_thrown

text \<open>
  The environment: the outcome of the \<open>n\<close>-th transport call (counted from 0 over the
  life of the world), the \<open>n\<close>-th value of \<^verbatim>\<open>Math.random\<close>, and \<^verbatim>\<open>JSON.stringify\<close>.
\<close>

record env =
  fetch :: "nat \<Rightarrow> fetch_call \<Rightarrow> fetch_outcome"
  Math_random :: "nat \<Rightarrow> real"
  JSON_stringify :: "jsval \<Rightarrow> stringify_result"

record world =
  fetch_log :: "fetch_call list"
  sleep_log :: "double list"
  json_calls :: nat
  random_calls :: nat
  formdata_heap :: "(string \<times> Blob) list list"

definition world0 :: world where
  "world0 = \<lparr>fetch_log = [], sleep_log = [], json_calls = 0, random_calls = 0,
              formdata_heap = []\<rparr>"

subsection \<open>Classification of failures\<close>

definition networkErrors :: "string list" where
  "networkErrors = [''ECONNRESET'', ''ECONNREFUSED'', ''ETIMEDOUT'', ''ENOTFOUND'', ''EAI_AGAIN'']"

text \<open>
  \<^verbatim>\<open>isRetryableError(error, statusCode?)\<close>. \<open>error = None\<close> is the \<^verbatim>\<open>null\<close> passed on
  the status path, \<open>code\<close> the parameter \<^verbatim>\<open>statusCode\<close>. \<^verbatim>\<open>statusCode && statusCode >= 500\<close> needs a non-zero status.
\<close>

definition isRetryableError :: "js_thrown option \<Rightarrow> nat option \<Rightarrow> bool" where
  "isRetryableError error code =
     (if (case code of None \<Rightarrow> False | Some s \<Rightarrow> s \<noteq> 0 \<and> s \<ge> 500) then True
      else if code = Some 429 then True
      else (case error of
              Some (ErrorObj name msg) \<Rightarrow>
                (\<exists>e \<in> set networkErrors. str_includes msg e) \<or> name = ''AbortError''
            | _ \<Rightarrow> False))"

text \<open>
  \<^verbatim>\<open>data && typeof data === "object" && "message" in data && typeof data.message === "string"\<close>:
  the \<^verbatim>\<open>message\<close> property of a decoded object when it is a string.
\<close>

fun data_message :: "jsval \<Rightarrow> string option" where
  "data_message (JObj kvs) =
     (case map_of kvs ''message'' of Some (JStr s) \<Rightarrow> Some s | _ \<Rightarrow> None)"
| "data_message _ = None"

subsection \<open>One attempt\<close>

text \<open>\<^verbatim>\<open>await this.sleep(this.getRetryDelay(attempt))\<close>: one random draw, one sleep.\<close>

definition sleep_backoff :: "env \<Rightarrow> HttpClient \<Rightarrow> nat \<Rightarrow> world \<Rightarrow> world" where
  "sleep_backoff e this attempt w =
     w\<lparr>sleep_log := sleep_log w @ [getRetryDelay this (Math_random e (random_calls w)) attempt],
       random_calls := Suc (random_calls w)\<rparr>"

text \<open>What is caught by the \<^verbatim>\<open>catch\<close> clause: an error the \<^verbatim>\<open>try\<close> block threw itself, or what the transport threw.\<close>

datatype caught = CaughtChaindoc ChaindocError | CaughtThrown js_thrown

datatype try_flow = TReturn jsval | TContinue ChaindocError | TThrow caught

datatype attempt_flow = Finished "ChaindocError + jsval" | Again ChaindocError

text \<open>
  The \<^verbatim>\<open>try\<close> block after \<^verbatim>\<open>fetch\<close> has resolved (lines 137--177 of \<^verbatim>\<open>request\<close>, lines
  278--316 of \<^verbatim>\<open>uploadFiles\<close>; the two differ only in the literal \<open>failedMsg\<close>).
\<close>

definition try_response ::
  "string \<Rightarrow> env \<Rightarrow> HttpClient \<Rightarrow> int \<Rightarrow> nat \<Rightarrow> Response \<Rightarrow> world \<Rightarrow> try_flow \<times> world" where
  "try_response failedMsg e this maxAttempts attempt resp w =
     (if status resp = 204 \<or> resp_headers resp ''content-length'' = Some ''0''
      then (TReturn JUndefined, w)
      else
        let decode = (case resp_headers resp ''content-type'' of
                        None \<Rightarrow> False
                      | Some contentType \<Rightarrow> str_includes contentType ''application/json'');
            data = (if decode then nullish (json_result resp) JUndefined else JUndefined);
            w1 = (if decode then w\<lparr>json_calls := Suc (json_calls w)\<rparr> else w)
        in if \<not> ok resp then
             let errorMessage = (case data_message data of
                                   Some m \<Rightarrow> m
                                 | None \<Rightarrow> failedMsg @ show_nat (status resp));
                 retryable = isRetryableError None (Some (status resp));
                 lastError = ChaindocError_new errorMessage (Some (status resp)) data retryable
             in if retryable \<and> int attempt < maxAttempts - 1
                then (TContinue lastError, sleep_backoff e this attempt w1)
                else (TThrow (CaughtChaindoc lastError), w1)
           else (TReturn data, w1))"

text \<open>
  The \<^verbatim>\<open>catch\<close> clause (lines 178--210 and 317--349; they differ only in the literal
  \<open>timeoutMsg\<close>).
\<close>

definition catch_error ::
  "string \<Rightarrow> env \<Rightarrow> HttpClient \<Rightarrow> int \<Rightarrow> nat \<Rightarrow> caught \<Rightarrow> world \<Rightarrow> attempt_flow \<times> world" where
  "catch_error timeoutMsg e this maxAttempts attempt error w =
     (case error of
        CaughtChaindoc err \<Rightarrow>
          if \<not> isRetryable err \<or> int attempt \<ge> maxAttempts - 1
          then (Finished (Inl err), w)
          else (Again err, sleep_backoff e this attempt w)
      | CaughtThrown t \<Rightarrow>
          let retryable = isRetryableError (Some t) None
          in (case t of
                ErrorObj name msg \<Rightarrow>
                  let lastError =
                        ChaindocError_new (if name = ''AbortError'' then timeoutMsg else msg)
                          None JUndefined retryable
                  in if retryable \<and> int attempt < maxAttempts - 1
                     then (Again lastError, sleep_backoff e this attempt w)
                     else (Finished (Inl lastError), w)
              | NonError \<Rightarrow> (Finished (Inl (ChaindocError_msg ''Unknown error occurred'')), w)))"

text \<open>Everything that follows the transport call in one iteration of the loop.\<close>

definition process_outcome ::
  "string \<Rightarrow> string \<Rightarrow> env \<Rightarrow> HttpClient \<Rightarrow> int \<Rightarrow> nat \<Rightarrow> fetch_outcome \<Rightarrow> world
     \<Rightarrow> attempt_flow \<times> world" where
  "process_outcome failedMsg timeoutMsg e this maxAttempts attempt outcome w =
     (case outcome of
        Rejected t \<Rightarrow> catch_error timeoutMsg e this maxAttempts attempt (CaughtThrown t) w
      | Responded resp \<Rightarrow>
          (case try_response failedMsg e this maxAttempts attempt resp w of
             (TReturn v, w1) \<Rightarrow> (Finished (Inr v), w1)
           | (TContinue err, w1) \<Rightarrow> (Again err, w1)
           | (TThrow c, w1) \<Rightarrow> catch_error timeoutMsg e this maxAttempts attempt c w1))"

subsection \<open>JSON requests\<close>

text \<open>
  \<^verbatim>\<open>options.body ? JSON.stringify(options.body) : undefined\<close>, evaluated inside the
  \<^verbatim>\<open>try\<close> block while the arguments of \<^verbatim>\<open>fetch\<close> are built: \<open>Inl\<close> is what
  \<^verbatim>\<open>JSON.stringify\<close> throws, \<open>Inr\<close> the body of the call.
\<close>

definition request_body :: "env \<Rightarrow> RequestOptions \<Rightarrow> js_thrown + fetch_body" where
  "request_body e options =
     (if truthy (opt_body options) then
        (case JSON_stringify e (opt_body options) of
           Serialized s \<Rightarrow> Inr (TextBody s)
         | NotSerialized \<Rightarrow> Inr NoBody
         | StringifyThrows t \<Rightarrow> Inl t)
      else Inr NoBody)"

text \<open>
  The arguments of the \<^verbatim>\<open>fetch\<close> call of \<^verbatim>\<open>request\<close> (lines 115--135), when building
  them does not throw.
\<close>

definition request_call :: "env \<Rightarrow> HttpClient \<Rightarrow> string \<Rightarrow> RequestOptions \<Rightarrow> fetch_call" where
  "request_call e this endpoint options =
     \<lparr>call_url = baseUrl this @ endpoint,
      call_method = nullish (opt_method options) GET,
      call_headers =
        defaultHeaders this ++ (case opt_headers options of None \<Rightarrow> Map.empty | Some h \<Rightarrow> h),
      call_body = (case request_body e options of Inl t \<Rightarrow> NoBody | Inr b \<Rightarrow> b),
      call_abort_after = nullish (opt_timeout options) (timeout this)\<rparr>"

text \<open>
  One iteration of the loop. When \<^verbatim>\<open>JSON.stringify\<close> throws, \<^verbatim>\<open>fetch\<close> is not called and
  the \<^verbatim>\<open>catch\<close> clause receives what was thrown.
\<close>

definition request_attempt ::
  "env \<Rightarrow> HttpClient \<Rightarrow> string \<Rightarrow> RequestOptions \<Rightarrow> int \<Rightarrow> nat \<Rightarrow> world \<Rightarrow> attempt_flow \<times> world" where
  "request_attempt e this endpoint options maxAttempts attempt w =
     (case request_body e options of
        Inl t \<Rightarrow> catch_error ''Request timeout'' e this maxAttempts attempt (CaughtThrown t) w
      | Inr b \<Rightarrow>
          let call = request_call e this endpoint options;
              outcome = fetch e (length (fetch_log w)) call;
              w1 = w\<lparr>fetch_log := fetch_log w @ [call]\<rparr>
          in process_outcome ''Request failed with status '' ''Request timeout''
               e this maxAttempts attempt outcome w1)"

text \<open>
  The loop \<^verbatim>\<open>for (let attempt = 0; attempt < maxAttempts; attempt++)\<close> with the final
  \<^verbatim>\<open>throw lastError ?? new ChaindocError("Request failed after retries")\<close>.
\<close>

function request_loop ::
  "env \<Rightarrow> HttpClient \<Rightarrow> string \<Rightarrow> RequestOptions \<Rightarrow> int \<Rightarrow> nat \<Rightarrow> ChaindocError option \<Rightarrow> world
     \<Rightarrow> (ChaindocError + jsval) \<times> world" where
  "request_loop e this endpoint options maxAttempts attempt lastError w =
     (if int attempt < maxAttempts then
        (case request_attempt e this endpoint options maxAttempts attempt w of
           (Finished r, w1) \<Rightarrow> (r, w1)
         | (Again err, w1) \<Rightarrow>
             request_loop e this endpoint options maxAttempts (Suc attempt) (Some err) w1)
      else (Inl (nullish lastError (ChaindocError_msg ''Request failed after retries'')), w))"
  by pat_completeness auto
termination
  by (relation "measure (\<lambda>(e, this, endpoint, options, maxAttempts, attempt, lastError, w).
        nat (maxAttempts - int attempt))") auto

declare request_loop.simps [simp del]

definition request ::
  "env \<Rightarrow> HttpClient \<Rightarrow> string \<Rightarrow> RequestOptions \<Rightarrow> world \<Rightarrow> (ChaindocError + jsval) \<times> world" where
  "request e this endpoint options w =
     (let maxAttempts = (if opt_noRetry options = Some True then 1
                         else maxRetries (retryConfig this) + 1)
      in request_loop e this endpoint options maxAttempts 0 None w)"

subsection \<open>Multipart uploads\<close>

text \<open>
  \<^verbatim>\<open>new FormData()\<close> followed by \<^verbatim>\<open>files.forEach(file => formData.append(fieldName, file))\<close>:
  a new object is allocated in the heap of forms and filled; its address is returned.
\<close>

definition FormData_new :: "world \<Rightarrow> nat \<times> world" where
  "FormData_new w = (length (formdata_heap w), w\<lparr>formdata_heap := formdata_heap w @ [[]]\<rparr>)"

definition FormData_append :: "nat \<Rightarrow> string \<Rightarrow> Blob \<Rightarrow> world \<Rightarrow> world" where
  "FormData_append a fieldName file w =
     w\<lparr>formdata_heap := (formdata_heap w)[a := formdata_heap w ! a @ [(fieldName, file)]]\<rparr>"

definition build_form :: "string \<Rightarrow> Blob list \<Rightarrow> world \<Rightarrow> nat \<times> world" where
  "build_form fieldName files w =
     (let (formData, w1) = FormData_new w
      in (formData, fold (FormData_append formData fieldName) files w1))"

definition upload_call :: "HttpClient \<Rightarrow> string \<Rightarrow> nat \<Rightarrow> fetch_call" where
  "upload_call this endpoint formData =
     \<lparr>call_url = baseUrl this @ endpoint,
      call_method = POST,
      call_headers = [''Authorization'' \<mapsto> ''Bearer '' @ secretKey this],
      call_body = FormBody formData,
      call_abort_after = d_mul (timeout this) (Fin 2)\<rparr>"

definition upload_attempt ::
  "env \<Rightarrow> HttpClient \<Rightarrow> string \<Rightarrow> Blob list \<Rightarrow> string \<Rightarrow> int \<Rightarrow> nat \<Rightarrow> world
     \<Rightarrow> attempt_flow \<times> world" where
  "upload_attempt e this endpoint files fieldName maxAttempts attempt w =
     (let (formData, w1) = build_form fieldName files w;
          call = upload_call this endpoint formData;
          outcome = fetch e (length (fetch_log w1)) call;
          w2 = w1\<lparr>fetch_log := fetch_log w1 @ [call]\<rparr>
      in process_outcome ''Upload failed with status '' ''Upload timeout''
           e this maxAttempts attempt outcome w2)"

function uploadFiles_loop ::
  "env \<Rightarrow> HttpClient \<Rightarrow> string \<Rightarrow> Blob list \<Rightarrow> string \<Rightarrow> int \<Rightarrow> nat \<Rightarrow> ChaindocError option
     \<Rightarrow> world \<Rightarrow> (ChaindocError + jsval) \<times> world" where
  "uploadFiles_loop e this endpoint files fieldName maxAttempts attempt lastError w =
     (if int attempt < maxAttempts then
        (case upload_attempt e this endpoint files fieldName maxAttempts attempt w of
           (Finished r, w1) \<Rightarrow> (r, w1)
         | (Again err, w1) \<Rightarrow>
             uploadFiles_loop e this endpoint files fieldName maxAttempts (Suc attempt)
               (Some err) w1)
      else (Inl (nullish lastError (ChaindocError_msg ''Upload failed after retries'')), w))"
  by pat_completeness auto
termination
  by (relation "measure (\<lambda>(e, this, endpoint, files, fieldName, maxAttempts, attempt, lastError, w).
        nat (maxAttempts - int attempt))") auto

declare uploadFiles_loop.simps [simp del]

text \<open>\<^verbatim>\<open>uploadFiles(endpoint, files, fieldName = "media")\<close>; it has no option to disable retry.\<close>

definition uploadFiles ::
  "env \<Rightarrow> HttpClient \<Rightarrow> string \<Rightarrow> Blob list \<Rightarrow> string option \<Rightarrow> world
     \<Rightarrow> (ChaindocError + jsval) \<times> world" where
  "uploadFiles e this endpoint files fieldName w =
     (let maxAttempts = maxRetries (retryConfig this) + 1
      in uploadFiles_loop e this endpoint files (nullish fieldName ''media'') maxAttempts 0 None w)"

subsection \<open>Notions used in the statements\<close>

text \<open>The response is treated as having no content (first check after the transport call).\<close>

definition empty_response :: "Response \<Rightarrow> bool" where
  "empty_response resp = (status resp = 204 \<or> resp_headers resp ''content-length'' = Some ''0'')"

text \<open>The content type of the response indicates JSON.\<close>

definition json_typed :: "Response \<Rightarrow> bool" where
  "json_typed resp =
     (case resp_headers resp ''content-type'' of
        None \<Rightarrow> False
      | Some contentType \<Rightarrow> str_includes contentType ''application/json'')"

text \<open>The decoded payload of a response with content: \<open>JUndefined\<close> is "no value".\<close>

definition decoded :: "Response \<Rightarrow> jsval" where
  "decoded resp = (if json_typed resp then nullish (json_result resp) JUndefined else JUndefined)"

text \<open>The world after the body of an outcome has been decoded, if it is decoded at all.\<close>

definition note_decode :: "fetch_outcome \<Rightarrow> world \<Rightarrow> world" where
  "note_decode out w =
     (case out of
        Responded resp \<Rightarrow>
          if \<not> empty_response resp \<and> json_typed resp
          then w\<lparr>json_calls := Suc (json_calls w)\<rparr> else w
      | Rejected t \<Rightarrow> w)"

text \<open>A transport failure of one of the known transient classes.\<close>

definition transient_failure :: "string \<Rightarrow> bool" where
  "transient_failure msg = (\<exists>c \<in> set networkErrors. str_includes msg c)"

text \<open>
  The outcomes of an attempt that the executor classifies as retryable failures: a
  response with content and status 429 or at least 500, or a thrown \<^verbatim>\<open>Error\<close> that is an
  abort or of a transient class.
\<close>

definition retryable_outcome :: "fetch_outcome \<Rightarrow> bool" where
  "retryable_outcome out =
     (case out of
        Responded resp \<Rightarrow> \<not> empty_response resp \<and> (500 \<le> status resp \<or> status resp = 429)
      | Rejected (ErrorObj name msg) \<Rightarrow> transient_failure msg \<or> name = ''AbortError''
      | Rejected NonError \<Rightarrow> False)"

text \<open>
  The outcome of the attempt of a JSON request that starts when \<open>i\<close> transport calls have
  been made since the world \<open>w\<close>: what the transport answers, or, when building the
  arguments throws, what was thrown. The world with that attempt's transport call logged.
\<close>

definition attempt_outcome ::
  "env \<Rightarrow> HttpClient \<Rightarrow> string \<Rightarrow> RequestOptions \<Rightarrow> world \<Rightarrow> nat \<Rightarrow> fetch_outcome" where
  "attempt_outcome e this endpoint options w i =
     (case request_body e options of
        Inl t \<Rightarrow> Rejected t
      | Inr b \<Rightarrow> fetch e (length (fetch_log w) + i) (request_call e this endpoint options))"

definition attempt_logged ::
  "env \<Rightarrow> HttpClient \<Rightarrow> string \<Rightarrow> RequestOptions \<Rightarrow> world \<Rightarrow> world" where
  "attempt_logged e this endpoint options w =
     (case request_body e options of
        Inl t \<Rightarrow> w
      | Inr b \<Rightarrow> w\<lparr>fetch_log := fetch_log w @ [request_call e this endpoint options]\<rparr>)"

text \<open>
  The world after \<open>n\<close> attempts of a JSON request, the first with index \<open>a\<close>, that each
  ended in a sleep and a further attempt.
\<close>

fun retried ::
  "env \<Rightarrow> HttpClient \<Rightarrow> string \<Rightarrow> RequestOptions \<Rightarrow> nat \<Rightarrow> nat \<Rightarrow> world \<Rightarrow> world" where
  "retried e this endpoint options a 0 w = w"
| "retried e this endpoint options a (Suc n) w =
     retried e this endpoint options (Suc a) n
       (sleep_backoff e this a
          (note_decode (attempt_outcome e this endpoint options w 0)
             (attempt_logged e this endpoint options w)))"

text \<open>The error an attempt constructs from a failed outcome.\<close>

definition outcome_error :: "string \<Rightarrow> string \<Rightarrow> fetch_outcome \<Rightarrow> ChaindocError" where
  "outcome_error failedMsg timeoutMsg out =
     (case out of
        Responded resp \<Rightarrow>
          \<lparr>message = (case data_message (decoded resp) of
                         Some m \<Rightarrow> m
                       | None \<Rightarrow> failedMsg @ show_nat (status resp)),
           statusCode = Some (status resp),
           response = decoded resp,
           isRetryable = (500 \<le> status resp \<or> status resp = 429)\<rparr>
      | Rejected (ErrorObj name msg) \<Rightarrow>
          \<lparr>message = (if name = ''AbortError'' then timeoutMsg else msg),
           statusCode = None,
           response = JUndefined,
           isRetryable = (transient_failure msg \<or> name = ''AbortError'')\<rparr>
      | Rejected NonError \<Rightarrow> ChaindocError_msg ''Unknown error occurred'')"

subsection \<open>Example inputs\<close>

text \<open>A client with the default retry policy (3 retries, 1000 ms base delay, 10000 ms cap).\<close>

definition example_client :: HttpClient where
  "example_client =
     \<lparr>baseUrl = ''https://api.chaindoc.io'', secretKey = ''sk_test'', timeout = Fin 30000,
      defaultHeaders = [''Content-Type'' \<mapsto> ''application/json'',
                        ''Authorization'' \<mapsto> ''Bearer sk_test''],
      retryConfig = \<lparr>maxRetries = 3, baseDelayMs = Fin 1000, maxDelayMs = Fin 10000\<rparr>\<rparr>"

text \<open>The same client with a retry policy given by the caller.\<close>

definition client_with :: "int \<Rightarrow> double \<Rightarrow> double \<Rightarrow> HttpClient" where
  "client_with r b m =
     example_client\<lparr>retryConfig := \<lparr>maxRetries = r, baseDelayMs = b, maxDelayMs = m\<rparr>\<rparr>"

definition no_options :: RequestOptions where
  "no_options = \<lparr>opt_method = None, opt_body = JUndefined, opt_headers = None,
                 opt_timeout = None, opt_noRetry = None\<rparr>"

text \<open>
  A serializer with a placeholder for the text it produces: no string for a function, a
  symbol or \<^verbatim>\<open>undefined\<close>, a \<^verbatim>\<open>TypeError\<close> for a BigInt.
\<close>

fun example_stringify :: "jsval \<Rightarrow> stringify_result" where
  "example_stringify JFunction = NotSerialized"
| "example_stringify JSymbol = NotSerialized"
| "example_stringify JUndefined = NotSerialized"
| "example_stringify (JBigInt n) =
     StringifyThrows (ErrorObj ''TypeError'' ''Do not know how to serialize a BigInt'')"
| "example_stringify v = Serialized ''<json>''"

text \<open>
  An environment whose transport answers the \<open>n\<close>-th call with the \<open>n\<close>-th outcome of a
  list, and every later call with a last outcome; its random source always returns
  \<open>1 / 2\<close>.
\<close>

definition scripted_env :: "fetch_outcome list \<Rightarrow> fetch_outcome \<Rightarrow> env" where
  "scripted_env outs out =
     \<lparr>fetch = (\<lambda>n call. if n < length outs then outs ! n else out),
      Math_random = (\<lambda>n. 1 / 2), JSON_stringify = example_stringify\<rparr>"

text \<open>An environment whose transport gives the same outcome to every call.\<close>

definition constant_env :: "fetch_outcome \<Rightarrow> env" where
  "constant_env out = scripted_env [] out"

definition response_of :: "nat \<Rightarrow> (string \<rightharpoonup> string) \<Rightarrow> jsval option \<Rightarrow> Response" where
  "response_of s h j = \<lparr>status = s, resp_headers = h, json_result = j\<rparr>"

text \<open>A staging configuration that has just the declared properties.\<close>

definition staging_config :: ChaindocConfig where
  "staging_config =
     \<lparr>cfg_secretKey = Some ''sk_test'', cfg_environment = Some Staging, cfg_timeout = None,
      cfg_headers = None, cfg_retry = None, cfg_baseUrl = None\<rparr>"

section \<open>Properties\<close>

subsection \<open>Rounding to binary64\<close>

lemma pow2_powr: "pow2 i = 2 powr real_of_int i"
  by (auto simp: pow2_def powr_realpow[symmetric] powr_minus divide_simps)

lemma pow2_pos [simp]: "0 < pow2 i"
  by (simp add: pow2_powr)

lemma pow2_nonneg [simp]: "0 \<le> pow2 i"
  using pow2_pos[of i] by linarith

lemma pow2_nz [simp]: "pow2 i \<noteq> 0"
  using pow2_pos[of i] by linarith

lemma pow2_0 [simp]: "pow2 0 = 1"
  by (simp add: pow2_def)

lemma pow2_add: "pow2 (i + j) = pow2 i * pow2 j"
  by (simp add: pow2_powr powr_add)

lemma pow2_diff: "pow2 (i - j) = pow2 i / pow2 j"
  by (simp add: pow2_powr powr_diff)

lemma pow2_less_iff [simp]: "pow2 i < pow2 j \<longleftrightarrow> i < j"
  by (simp add: pow2_powr)

lemma pow2_le_iff [simp]: "pow2 i \<le> pow2 j \<longleftrightarrow> i \<le> j"
  by (simp add: pow2_powr)

lemma ilog2_bounds:
  assumes "0 < a"
  shows "pow2 (ilog2 a) \<le> a \<and> a < pow2 (ilog2 a + 1)"
proof (cases "1 \<le> a")
  case True
  then have p: "0 < \<lfloor>a\<rfloor>" by linarith
  let ?b = "bitlen \<lfloor>a\<rfloor>"
  from bitlen_bounds[OF p] have b: "2 ^ nat (?b - 1) \<le> \<lfloor>a\<rfloor>" "\<lfloor>a\<rfloor> < 2 ^ nat ?b" by auto
  have b1: "1 \<le> ?b" using p by (auto simp: bitlen_alt_def)
  have "real_of_int (2 ^ nat (?b - 1)) \<le> a" using b(1) by linarith
  then have lo: "pow2 (?b - 1) \<le> a" using b1 by (simp add: pow2_def)
  have "\<lfloor>a\<rfloor> + 1 \<le> 2 ^ nat ?b" using b(2) by simp
  then have "real_of_int (\<lfloor>a\<rfloor> + 1) \<le> real_of_int (2 ^ nat ?b)" by (rule of_int_le_iff[THEN iffD2])
  then have "a < 2 ^ nat ?b" by simp linarith
  then have hi: "a < pow2 ?b" using b1 by (simp add: pow2_def)
  show ?thesis using lo hi True by (simp add: ilog2_def)
next
  case False
  then have a1: "a < 1" by simp
  let ?n = "\<lceil>1 / a\<rceil> - 1"
  have y: "1 < 1 / a" using assms a1 by simp
  then have p: "0 < ?n" by linarith
  let ?b = "bitlen ?n"
  from bitlen_bounds[OF p] have b: "2 ^ nat (?b - 1) \<le> ?n" "?n < 2 ^ nat ?b" by auto
  have b1: "1 \<le> ?b" using p by (auto simp: bitlen_alt_def)
  have n1: "real_of_int ?n < 1 / a" by linarith
  have n2: "1 / a \<le> real_of_int (?n + 1)" by simp
  have "real_of_int (2 ^ nat (?b - 1)) \<le> real_of_int ?n" using b(1) by (rule of_int_le_iff[THEN iffD2])
  then have "2 ^ nat (?b - 1) < 1 / a" using n1 by simp
  then have "a < 1 / 2 ^ nat (?b - 1)" using assms by (simp add: field_simps)
  then have hi: "a < pow2 (- ?b + 1)" using b1 by (auto simp: pow2_def nat_diff_distrib)
  have "?n + 1 \<le> 2 ^ nat ?b" using b(2) by simp
  then have "real_of_int (?n + 1) \<le> real_of_int (2 ^ nat ?b)" by (rule of_int_le_iff[THEN iffD2])
  from order_trans[OF n2 this] have "1 / a \<le> 2 ^ nat ?b" by simp
  then have "1 / 2 ^ nat ?b \<le> a" using assms by (simp add: field_simps)
  then have lo: "pow2 (- ?b) \<le> a" using b1 by (auto simp: pow2_def)
  show ?thesis using lo hi False by (simp add: ilog2_def)
qed

lemma ilog2_unique:
  assumes "pow2 e \<le> a" and "a < pow2 (e + 1)"
  shows "ilog2 a = e"
proof -
  have "0 < a" using assms(1) pow2_pos[of e] by linarith
  from ilog2_bounds[OF this] have b: "pow2 (ilog2 a) \<le> a" "a < pow2 (ilog2 a + 1)" by auto
  have "pow2 e < pow2 (ilog2 a + 1)" using assms(1) b(2) by linarith
  moreover have "pow2 (ilog2 a) < pow2 (e + 1)" using assms(2) b(1) by linarith
  ultimately show ?thesis by simp
qed

lemma ilog2_mono:
  assumes "0 < a" and "a \<le> b"
  shows "ilog2 a \<le> ilog2 b"
proof -
  have "0 < b" using assms by simp
  from ilog2_bounds[OF assms(1)] ilog2_bounds[OF this] assms(2)
  have "pow2 (ilog2 a) < pow2 (ilog2 b + 1)" by linarith
  then show ?thesis by simp
qed

lemma rne_of_int [simp]: "rne (of_int k) = k"
  by (simp add: rne_def)

lemma rne_bounds: "\<lfloor>t\<rfloor> \<le> rne t \<and> rne t \<le> \<lfloor>t\<rfloor> + 1"
  by (simp add: rne_def Let_def)

lemma rne_mono:
  assumes "s \<le> t"
  shows "rne s \<le> rne t"
proof (cases "\<lfloor>s\<rfloor> = \<lfloor>t\<rfloor>")
  case True
  then show ?thesis using assms by (auto simp: rne_def Let_def)
next
  case False
  then have "\<lfloor>s\<rfloor> + 1 \<le> \<lfloor>t\<rfloor>" using floor_mono[OF assms] by simp
  then show ?thesis using rne_bounds[of s] rne_bounds[of t] by linarith
qed

lemma rne_nonneg: "0 \<le> t \<Longrightarrow> 0 \<le> rne t"
  using rne_mono[of 0 t] rne_of_int[of 0] by simp

lemma ulp_exp_ge: "- 1074 \<le> ulp_exp a"
  by (simp add: ulp_exp_def)

lemma ulp_exp_mono: "0 < a \<Longrightarrow> a \<le> b \<Longrightarrow> ulp_exp a \<le> ulp_exp b"
  using ilog2_mono[of a b] by (simp add: ulp_exp_def)

lemma below_next_binade:
  assumes "0 < a"
  shows "a < pow2 (ulp_exp a + 53)"
proof -
  have "a < pow2 (ilog2 a + 1)" using ilog2_bounds[OF assms] by simp
  also have "\<dots> \<le> pow2 (ulp_exp a + 53)" by (simp add: ulp_exp_def)
  finally show ?thesis .
qed

lemma rne_quot_le:
  assumes "0 < a"
  shows "rne (a / pow2 (ulp_exp a)) \<le> 2 ^ 53"
proof -
  let ?u = "pow2 (ulp_exp a)"
  have "a / ?u < pow2 (ulp_exp a + 53) / ?u"
    using below_next_binade[OF assms] by (intro divide_strict_right_mono) simp_all
  also have "\<dots> = pow2 53" by (simp add: pow2_add)
  finally have "a / ?u \<le> of_int (2 ^ 53)" by (simp add: pow2_def)
  from rne_mono[OF this] show ?thesis by (simp only: rne_of_int)
qed

lemma round_mag_nonneg: "0 < a \<Longrightarrow> 0 \<le> round_mag a"
  unfolding round_mag_def by (intro mult_nonneg_nonneg) (simp_all add: rne_nonneg)

lemma round_mag_upper:
  assumes "0 < a"
  shows "round_mag a \<le> pow2 (ulp_exp a + 53)"
proof -
  let ?u = "pow2 (ulp_exp a)"
  have "real_of_int (rne (a / ?u)) \<le> real_of_int (2 ^ 53)"
    using rne_quot_le[OF assms] by (rule of_int_le_iff[THEN iffD2])
  then have "round_mag a \<le> real_of_int (2 ^ 53) * ?u"
    unfolding round_mag_def by (intro mult_right_mono) simp_all
  also have "real_of_int (2 ^ 53) * ?u = pow2 (ulp_exp a + 53)"
    unfolding pow2_add by (simp add: pow2_def)
  finally show ?thesis .
qed

lemma round_mag_lower:
  assumes "0 < a" and "- 1022 \<le> ilog2 a"
  shows "pow2 (ulp_exp a + 52) \<le> round_mag a"
proof -
  let ?u = "pow2 (ulp_exp a)"
  have e: "ulp_exp a + 52 = ilog2 a" using assms(2) by (simp add: ulp_exp_def)
  have "pow2 (ulp_exp a + 52) \<le> a" using ilog2_bounds[OF assms(1)] e by simp
  then have "pow2 (ulp_exp a + 52) / ?u \<le> a / ?u" by (intro divide_right_mono) simp_all
  moreover have "pow2 (ulp_exp a + 52) / ?u = pow2 52" by (simp add: pow2_add)
  ultimately have "of_int (2 ^ 52) \<le> a / ?u" by (simp add: pow2_def)
  from rne_mono[OF this] have "2 ^ 52 \<le> rne (a / ?u)" by (simp only: rne_of_int)
  then have "real_of_int (2 ^ 52) \<le> real_of_int (rne (a / ?u))" by (rule of_int_le_iff[THEN iffD2])
  then have "real_of_int (2 ^ 52) * ?u \<le> round_mag a"
    unfolding round_mag_def by (intro mult_right_mono) simp_all
  moreover have "real_of_int (2 ^ 52) * ?u = pow2 (ulp_exp a + 52)"
    unfolding pow2_add by (simp add: pow2_def)
  ultimately show ?thesis by simp
qed

text \<open>Rounding is monotone: within a binade by \<open>rne_mono\<close>, across binades by the bounds.\<close>

lemma round_mag_mono:
  assumes "0 < a" and "a \<le> b"
  shows "round_mag a \<le> round_mag b"
proof (cases "ulp_exp a = ulp_exp b")
  case True
  have "a / pow2 (ulp_exp b) \<le> b / pow2 (ulp_exp b)"
    using assms(2) by (intro divide_right_mono) simp_all
  from rne_mono[OF this]
  have "real_of_int (rne (a / pow2 (ulp_exp b))) \<le> real_of_int (rne (b / pow2 (ulp_exp b)))"
    by simp
  then show ?thesis unfolding round_mag_def True by (intro mult_right_mono) simp_all
next
  case False
  have b: "0 < b" using assms by simp
  from False ulp_exp_mono[OF assms] have lt: "ulp_exp a + 1 \<le> ulp_exp b" by simp
  then have "- 1022 - 52 < ulp_exp b" by (simp add: ulp_exp_def)
  then have nb: "- 1022 \<le> ilog2 b" by (auto simp: ulp_exp_def max_def split: if_splits)
  have "round_mag a \<le> pow2 (ulp_exp a + 53)" by (rule round_mag_upper[OF assms(1)])
  also have "\<dots> \<le> pow2 (ulp_exp b + 52)" using lt by simp
  also have "\<dots> \<le> round_mag b" by (rule round_mag_lower[OF b nb])
  finally show ?thesis .
qed

text \<open>A value with a significand of at most 53 bits and an exponent in range is not rounded.\<close>

lemma round_mag_exact:
  assumes n: "0 < n" "n \<le> 2 ^ 53" and i: "- 1074 \<le> i"
  shows "round_mag (of_int n * pow2 i) = of_int n * pow2 i"
proof -
  let ?a = "real_of_int n * pow2 i"
  let ?b = "bitlen n"
  from bitlen_bounds[OF n(1)] have bb: "2 ^ nat (?b - 1) \<le> n" "n < 2 ^ nat ?b" by auto
  have b1: "1 \<le> ?b" using n(1) by (auto simp: bitlen_alt_def)
  have "real_of_int (2 ^ nat (?b - 1)) \<le> real_of_int n" using bb(1) by (rule of_int_le_iff[THEN iffD2])
  then have l1: "pow2 (?b - 1) \<le> real_of_int n" using b1 by (simp add: pow2_def)
  have "real_of_int n < real_of_int (2 ^ nat ?b)" using bb(2) by (rule of_int_less_iff[THEN iffD2])
  then have l2: "real_of_int n < pow2 ?b" using b1 by (simp add: pow2_def)
  have "pow2 (?b - 1 + i) \<le> ?a" using l1 by (simp add: pow2_add)
  moreover have "?a < pow2 (?b - 1 + i + 1)" using l2 by (simp add: pow2_add)
  ultimately have il: "ilog2 ?a = ?b - 1 + i" by (rule ilog2_unique)
  have "n < 2 ^ 54" using n(2) by simp
  then have b54: "bitlen n \<le> 54" by (simp add: bitlen_le_iff_power)
  have k: "0 \<le> i - ulp_exp ?a \<or> (n = 2 ^ 53 \<and> i - ulp_exp ?a = - 1)"
  proof (cases "bitlen n = 54")
    case True
    then have "\<not> n < 2 ^ 53" using bitlen_le_iff_power[of n 53] by auto
    then have "n = 2 ^ 53" using n(2) by simp
    moreover have "i - ulp_exp ?a = - 1" using True i by (simp add: ulp_exp_def il)
    ultimately show ?thesis by simp
  next
    case False
    then have "bitlen n \<le> 53" using b54 by simp
    then show ?thesis using i by (auto simp: ulp_exp_def il max_def)
  qed
  have q: "?a / pow2 (ulp_exp ?a) = real_of_int n * pow2 (i - ulp_exp ?a)"
    by (simp add: pow2_diff)
  have "\<exists>m. ?a / pow2 (ulp_exp ?a) = real_of_int m"
    using k
  proof
    assume "0 \<le> i - ulp_exp ?a"
    then have "pow2 (i - ulp_exp ?a) = real_of_int (2 ^ nat (i - ulp_exp ?a))"
      by (simp add: pow2_def)
    then have "?a / pow2 (ulp_exp ?a) = real_of_int (n * 2 ^ nat (i - ulp_exp ?a))"
      unfolding q by simp
    then show ?thesis by blast
  next
    assume h: "n = 2 ^ 53 \<and> i - ulp_exp ?a = - 1"
    have p: "pow2 (- 1) = 1 / 2" by (simp add: pow2_def)
    from h have h1: "n = 2 ^ 53" and h2: "i - ulp_exp ?a = - 1" by blast+
    have "real_of_int n * pow2 (i - ulp_exp ?a) = real_of_int (2 ^ 52)"
      unfolding h2 p unfolding h1 by simp
    then have "?a / pow2 (ulp_exp ?a) = real_of_int (2 ^ 52)"
      unfolding q .
    then show ?thesis by blast
  qed
  then obtain m where m: "?a / pow2 (ulp_exp ?a) = real_of_int m" by blast
  have "round_mag ?a = real_of_int m * pow2 (ulp_exp ?a)"
    unfolding round_mag_def m by simp
  also have "\<dots> = ?a / pow2 (ulp_exp ?a) * pow2 (ulp_exp ?a)" by (simp only: m)
  also have "\<dots> = ?a" by simp
  finally show ?thesis .
qed

lemma binary64_pos:
  "0 < x \<Longrightarrow> binary64 x = (if pow2 1024 \<le> round_mag x then PInf else Fin (round_mag x))"
  by (simp add: binary64_def)

lemma binary64_negative:
  "x < 0 \<Longrightarrow>
   binary64 x = (if pow2 1024 \<le> round_mag (- x) then NInf else Fin (- round_mag (- x)))"
  by (simp add: binary64_def)

lemma binary64_zero [simp]: "binary64 0 = Fin 0"
  by (simp add: binary64_def)

lemma binary64_neg: "binary64 (- x) = d_neg (binary64 x)"
  by (cases "x = 0"; cases "0 < x") (auto simp: binary64_def)

lemma binary64_not_NaN [simp]: "binary64 x \<noteq> NaN"
  by (simp add: binary64_def)

lemma binary64_mono:
  assumes "x \<le> y"
  shows "d_le (binary64 x) (binary64 y)"
proof -
  consider (pp) "0 < x" | (nn) "y < 0" | (mid) "x \<le> 0" "0 \<le> y" using assms by linarith
  then show ?thesis
  proof cases
    case pp
    then have y: "0 < y" using assms by simp
    from round_mag_mono[OF pp assms] show ?thesis
      by (auto simp: binary64_pos[OF pp] binary64_pos[OF y])
  next
    case nn
    then have x: "x < 0" using assms by simp
    have "0 < - y" "- y \<le> - x" using nn assms by simp_all
    from round_mag_mono[OF this] show ?thesis
      by (auto simp: binary64_negative[OF nn] binary64_negative[OF x])
  next
    case mid
    have a: "binary64 x = NInf \<or> (\<exists>v. binary64 x = Fin v \<and> v \<le> 0)"
    proof (cases "x = 0")
      case True
      then show ?thesis by simp
    next
      case False
      then have x: "x < 0" using mid by simp
      then have "0 \<le> round_mag (- x)" by (intro round_mag_nonneg) simp
      then show ?thesis by (auto simp: binary64_negative[OF x])
    qed
    have b: "binary64 y = PInf \<or> (\<exists>v. binary64 y = Fin v \<and> 0 \<le> v)"
    proof (cases "y = 0")
      case True
      then show ?thesis by simp
    next
      case False
      then have y: "0 < y" using mid by simp
      then have "0 \<le> round_mag y" by (intro round_mag_nonneg)
      then show ?thesis by (auto simp: binary64_pos[OF y])
    qed
    from a b show ?thesis by auto
  qed
qed

lemma binary64_exact_pos:
  assumes "0 < n" and "n \<le> 2 ^ 53" and "- 1074 \<le> i" and "of_int n * pow2 i < pow2 1024"
  shows "binary64 (of_int n * pow2 i) = Fin (of_int n * pow2 i)"
proof -
  have p: "0 < real_of_int n * pow2 i" using assms(1) by simp
  show ?thesis
    unfolding binary64_pos[OF p] round_mag_exact[OF assms(1,2,3)] using assms(4) by simp
qed

lemma binary64_exact:
  assumes "\<bar>n\<bar> \<le> 2 ^ 53" and "- 1074 \<le> i" and "\<bar>of_int n * pow2 i\<bar> < pow2 1024"
  shows "binary64 (of_int n * pow2 i) = Fin (of_int n * pow2 i)"
proof -
  consider "n = 0" | "0 < n" | "n < 0" by linarith
  then show ?thesis
  proof cases
    case 1
    then show ?thesis by simp
  next
    case 2
    then show ?thesis using assms by (intro binary64_exact_pos) (simp_all add: abs_mult)
  next
    case 3
    then have "binary64 (of_int (- n) * pow2 i) = Fin (of_int (- n) * pow2 i)"
      using assms by (intro binary64_exact_pos) (simp_all add: abs_mult)
    then have "binary64 (- (of_int n * pow2 i)) = Fin (- (of_int n * pow2 i))" by simp
    then show ?thesis unfolding binary64_neg by (cases "binary64 (of_int n * pow2 i)") simp_all
  qed
qed

lemma round_mag_fixed:
  assumes "0 < a" and "round_mag a < pow2 1024"
  shows "binary64 (round_mag a) = Fin (round_mag a)"
proof -
  let ?k = "rne (a / pow2 (ulp_exp a))"
  have k0: "0 \<le> ?k" using assms(1) by (intro rne_nonneg) simp
  have "\<bar>?k\<bar> \<le> 2 ^ 53" using rne_quot_le[OF assms(1)] k0 by simp
  moreover have "\<bar>of_int ?k * pow2 (ulp_exp a)\<bar> < pow2 1024"
    using assms(2) round_mag_nonneg[OF assms(1)] by (simp add: round_mag_def)
  ultimately have "binary64 (of_int ?k * pow2 (ulp_exp a)) = Fin (of_int ?k * pow2 (ulp_exp a))"
    using ulp_exp_ge[of a] by (intro binary64_exact)
  then show ?thesis by (simp add: round_mag_def)
qed

text \<open>Every finite result of \<open>binary64\<close> is a binary64 value.\<close>

lemma binary64_idem:
  assumes "binary64 x = Fin y"
  shows "binary64 y = Fin y"
proof -
  consider "x = 0" | "0 < x" | "x < 0" by linarith
  then show ?thesis
  proof cases
    case 1
    with assms show ?thesis by simp
  next
    case 2
    with assms have "y = round_mag x" "round_mag x < pow2 1024"
      by (auto simp: binary64_pos split: if_splits)
    with round_mag_fixed[OF 2] show ?thesis by simp
  next
    case 3
    with assms have y: "y = - round_mag (- x)" "round_mag (- x) < pow2 1024"
      by (auto simp: binary64_negative split: if_splits)
    have "0 < - x" using 3 by simp
    from round_mag_fixed[OF this y(2)] show ?thesis
      unfolding y(1) binary64_neg by simp
  qed
qed

text \<open>Integers and quarters of integers of at most 53 bits are binary64 values.\<close>

lemma binary64_int:
  assumes "\<bar>n\<bar> \<le> 2 ^ 53"
  shows "binary64 (of_int n) = Fin (of_int n)"
proof -
  have "\<bar>real_of_int n\<bar> \<le> real_of_int (2 ^ 53)" using assms by (simp only: of_int_abs[symmetric] of_int_le_iff)
  then have "\<bar>real_of_int n * pow2 0\<bar> < pow2 1024" by (simp add: pow2_def)
  from binary64_exact[OF assms _ this] show ?thesis by simp
qed

lemma binary64_quarter:
  assumes "\<bar>n\<bar> \<le> 2 ^ 53"
  shows "binary64 (of_int n / 4) = Fin (of_int n / 4)"
proof -
  have p: "pow2 (- 2) = 1 / 4" by (simp add: pow2_def)
  have "\<bar>real_of_int n\<bar> \<le> real_of_int (2 ^ 53)" using assms by (simp only: of_int_abs[symmetric] of_int_le_iff)
  then have "\<bar>real_of_int n * pow2 (- 2)\<bar> < pow2 1024" unfolding p by (simp add: pow2_def)
  from binary64_exact[OF assms _ this] show ?thesis unfolding p by simp
qed

subsection \<open>Backoff delay\<close>

lemma d_le_Fin_between:
  "d_le (Fin a) x \<Longrightarrow> d_le x (Fin b) \<Longrightarrow> \<exists>v. x = Fin v \<and> a \<le> v \<and> v \<le> b"
  by (cases x) simp_all

lemma d_le_Fin_lower:
  "d_le (Fin a) x \<Longrightarrow> x = PInf \<or> (\<exists>v. x = Fin v \<and> a \<le> v)"
  by (cases x) simp_all

lemma Math_round_mono: "x \<le> y \<Longrightarrow> Math_round x \<le> Math_round y"
  by (simp add: Math_round_def floor_mono)

lemma Math_round_int: "Math_round (of_int k) = k"
  unfolding Math_round_def by linarith

lemma Math_round_d_mono: "d_le x y \<Longrightarrow> d_le (Math_round_d x) (Math_round_d y)"
  by (cases x; cases y) (simp_all add: Math_round_mono)

lemma d_mul_is_double: "is_double (d_mul x y)"
proof (cases "d_mul x y")
  case (Fin v)
  then have "\<exists>z. binary64 z = Fin v"
    by (cases x; cases y) (auto split: if_splits)
  then show ?thesis using Fin binary64_idem by auto
qed simp_all

lemma Math_min_cases: "Math_min x y = x \<or> Math_min x y = y \<or> Math_min x y = NaN"
  by (cases x; cases y) simp_all

lemma clamped_delay_is_double:
  assumes "is_double (maxDelayMs (retryConfig this))"
  shows "is_double (clamped_delay this a)"
  using Math_min_cases[of "d_mul (baseDelayMs (retryConfig this)) (Math_pow2 a)" "maxDelayMs (retryConfig this)"]
    d_mul_is_double[of "baseDelayMs (retryConfig this)" "Math_pow2 a"] assms
  by (auto simp: clamped_delay_def)

lemma binary64_small [simp]:
  "binary64 1 = Fin 1" "binary64 2 = Fin 2" "binary64 (- 1) = Fin (- 1)"
  using binary64_int[of 1] binary64_int[of 2] binary64_int[of "- 1"] by simp_all

lemma getRetryDelay_clamped:
  "getRetryDelay this rnd a =
     Math_round_d (d_add (clamped_delay this a)
       (d_mul (d_mul (clamped_delay this a) (Fin 0.25)) (d_sub (d_mul (Fin rnd) (Fin 2)) (Fin 1))))"
  by (simp add: getRetryDelay_def clamped_delay_def Let_def)

text \<open>
  The jitter factor \<^verbatim>\<open>Math.random() * 2 - 1\<close> is a finite value between \<open>- 1\<close> and \<open>1\<close>.
\<close>

lemma jitter_factor:
  assumes "0 \<le> rnd" and "rnd < 1"
  shows "\<exists>t. d_sub (d_mul (Fin rnd) (Fin 2)) (Fin 1) = Fin t \<and> - 1 \<le> t \<and> t \<le> 1"
proof -
  have "d_le (binary64 0) (binary64 (rnd * 2))" "d_le (binary64 (rnd * 2)) (binary64 2)"
    using assms by (intro binary64_mono; simp)+
  then obtain r where r: "binary64 (rnd * 2) = Fin r" "0 \<le> r" "r \<le> 2"
    using d_le_Fin_between[of 0 "binary64 (rnd * 2)" 2] by auto
  have "d_le (binary64 (- 1)) (binary64 (r - 1))" "d_le (binary64 (r - 1)) (binary64 1)"
    using r by (intro binary64_mono; simp)+
  then obtain t where "binary64 (r - 1) = Fin t" "- 1 \<le> t" "t \<le> 1"
    using d_le_Fin_between[of "- 1" "binary64 (r - 1)" 1] by auto
  then show ?thesis using r(1) by (simp add: d_sub_def)
qed

lemma getRetryDelay_between:
  assumes rnd: "0 \<le> rnd" "rnd < 1"
    and c: "clamped_delay this a = Fin m" "0 \<le> m"
    and md: "is_double (maxDelayMs (retryConfig this))"
  shows "d_le (Math_round_d (d_sub (Fin m) (d_mul (Fin m) (Fin (1 / 4)))))
           (getRetryDelay this rnd a)
       \<and> d_le (getRetryDelay this rnd a)
           (Math_round_d (d_add (Fin m) (d_mul (Fin m) (Fin (1 / 4)))))"
proof -
  have m: "binary64 m = Fin m" using clamped_delay_is_double[OF md, of a] c(1) by simp
  have "d_le (binary64 0) (binary64 (m * (1 / 4)))" "d_le (binary64 (m * (1 / 4))) (binary64 m)"
    using c(2) by (intro binary64_mono; simp)+
  then obtain q where q: "binary64 (m * (1 / 4)) = Fin q" "0 \<le> q" "q \<le> m"
    using d_le_Fin_between[of 0 "binary64 (m * (1 / 4))" m] m by auto
  have qd: "binary64 q = Fin q" "binary64 (- q) = Fin (- q)"
    using binary64_idem[OF q(1)] by (simp_all add: binary64_neg)
  from jitter_factor[OF rnd] obtain t where
    t: "d_sub (d_mul (Fin rnd) (Fin 2)) (Fin 1) = Fin t" "- 1 \<le> t" "t \<le> 1" by blast
  have "- q \<le> q * t" "q * t \<le> q"
    using q(2) t(2,3) mult_left_mono[of "- 1" t q] mult_left_mono[of t 1 q] by simp_all
  then have "d_le (binary64 (- q)) (binary64 (q * t))" "d_le (binary64 (q * t)) (binary64 q)"
    by (intro binary64_mono; simp)+
  then obtain j where j: "binary64 (q * t) = Fin j" "- q \<le> j" "j \<le> q"
    using d_le_Fin_between[of "- q" "binary64 (q * t)" q] qd by auto
  have s: "d_le (binary64 (m - q)) (binary64 (m + j))" "d_le (binary64 (m + j)) (binary64 (m + q))"
    using j(2,3) by (intro binary64_mono; simp)+
  have g: "getRetryDelay this rnd a = Math_round_d (binary64 (m + j))"
    unfolding getRetryDelay_clamped c(1) t(1) using q(1) j(1) by simp
  have lo: "d_sub (Fin m) (d_mul (Fin m) (Fin (1 / 4))) = binary64 (m - q)"
    and hi: "d_add (Fin m) (d_mul (Fin m) (Fin (1 / 4))) = binary64 (m + q)"
    using q(1) by (simp_all add: d_sub_def)
  show ?thesis unfolding g lo hi using s by (simp add: Math_round_d_mono)
qed




text \<open>Evaluating a rounding step from its exponent and its rounded significand.\<close>

lemma binary64_eval:
  assumes "pow2 e \<le> a" and "a < pow2 (e + 1)" and "- 1022 \<le> e"
    and "rne (a / pow2 (e - 52)) = k" and "of_int k * pow2 (e - 52) < pow2 1024"
  shows "binary64 a = Fin (of_int k * pow2 (e - 52))"
proof -
  have a: "0 < a" using assms(1) pow2_pos[of e] by linarith
  have "ilog2 a = e" using assms(1,2) by (rule ilog2_unique)
  then have u: "ulp_exp a = e - 52" using assms(3) by (simp add: ulp_exp_def)
  have "round_mag a = of_int k * pow2 (e - 52)" by (simp add: round_mag_def u assms(4))
  then show ?thesis using assms(5) by (simp add: binary64_pos[OF a])
qed

text \<open>
  Two delays that exact real arithmetic would give differently. With a base delay of 2 ms
  and the random source at its largest value, the sum \<open>2.5 - 2 ^ - 53\<close> is rounded to
  \<open>2.5\<close> and the delay is 3. With the binary64 value nearest to 1.2 as base delay, the
  delay is 2, while \<open>5 / 4\<close> of the clamped delay is below \<open>3 / 2\<close>.
\<close>

lemma getRetryDelay_rounds_the_sum:
  "getRetryDelay (client_with 3 (Fin 2) (Fin 10000)) (1 - 1 / 2 ^ 53) 0 = Fin 3"
proof -
  have b: "binary64 (1 / 2) = Fin (1 / 2)"
    "binary64 (9007199254740991 / 4503599627370496) = Fin (9007199254740991 / 4503599627370496)"
    "binary64 (4503599627370495 / 4503599627370496) = Fin (4503599627370495 / 4503599627370496)"
    "binary64 (4503599627370495 / 9007199254740992) = Fin (4503599627370495 / 9007199254740992)"
    using binary64_exact[of 1 "- 1"] binary64_exact[of 9007199254740991 "- 52"]
      binary64_exact[of 4503599627370495 "- 52"] binary64_exact[of 4503599627370495 "- 53"]
    by (simp_all add: pow2_def)
  have s: "binary64 (22517998136852479 / 9007199254740992) = Fin (5 / 2)"
    using binary64_eval[of 1 "22517998136852479 / 9007199254740992" 5629499534213120]
    by (simp add: pow2_def rne_def)
  have c: "clamped_delay (client_with 3 (Fin 2) (Fin 10000)) 0 = Fin 2"
    by (simp add: clamped_delay_def client_with_def Math_pow2_def)
  show ?thesis
    unfolding getRetryDelay_clamped c by (simp add: d_sub_def b s Math_round_def)
qed

lemma getRetryDelay_above_five_quarters:
  "getRetryDelay (client_with 3 (Fin (5404319552844595 / 2 ^ 52)) (Fin 10000)) (1 - 1 / 2 ^ 53) 0
     = Fin 2
   \<and> Math_round (5 / 4 * (5404319552844595 / 2 ^ 52)) = 1"
proof -
  have b: "binary64 (5404319552844595 / 4503599627370496) = Fin (5404319552844595 / 4503599627370496)"
    "binary64 (5404319552844595 / 18014398509481984) = Fin (5404319552844595 / 18014398509481984)"
    "binary64 (9007199254740991 / 4503599627370496) = Fin (9007199254740991 / 4503599627370496)"
    "binary64 (4503599627370495 / 4503599627370496) = Fin (4503599627370495 / 4503599627370496)"
    using binary64_exact[of 5404319552844595 "- 52"] binary64_exact[of 5404319552844595 "- 54"]
      binary64_exact[of 9007199254740991 "- 52"] binary64_exact[of 4503599627370495 "- 52"]
    by (simp_all add: pow2_def)
  have j: "binary64 (5404319552844595 / 18014398509481984 * (4503599627370495 / 4503599627370496))
             = Fin (5404319552844594 / 18014398509481984)"
    using binary64_eval[of "- 2" "5404319552844595 / 18014398509481984 * (4503599627370495 / 4503599627370496)"
        5404319552844594]
    by (simp add: pow2_def rne_def)
  have s: "binary64 (5404319552844595 / 4503599627370496 + 5404319552844594 / 18014398509481984) = Fin (3 / 2)"
    using binary64_eval[of 0 "5404319552844595 / 4503599627370496 + 5404319552844594 / 18014398509481984"
        6755399441055744]
    by (simp add: pow2_def rne_def)
  have c: "clamped_delay (client_with 3 (Fin (5404319552844595 / 2 ^ 52)) (Fin 10000)) 0
             = Fin (5404319552844595 / 4503599627370496)"
    by (simp add: clamped_delay_def client_with_def Math_pow2_def b)
  have g: "getRetryDelay (client_with 3 (Fin (5404319552844595 / 2 ^ 52)) (Fin 10000)) (1 - 1 / 2 ^ 53) 0
     = Fin 2"
    unfolding getRetryDelay_clamped c using j s by (simp add: d_sub_def b Math_round_def)
  show ?thesis unfolding g by (simp add: Math_round_def)
qed

subsection \<open>One attempt, outcome by outcome\<close>

lemma isRetryableError_status:
  "isRetryableError None (Some s) = (500 \<le> s \<or> s = 429)"
  by (auto simp: isRetryableError_def)

lemma isRetryableError_thrown:
  "isRetryableError (Some (ErrorObj name msg)) None = (transient_failure msg \<or> name = ''AbortError'')"
  by (simp add: isRetryableError_def transient_failure_def)

lemma isRetryableError_NonError: "isRetryableError (Some NonError) None = False"
  by (simp add: isRetryableError_def)

lemma try_response_empty:
  "empty_response resp \<Longrightarrow> try_response F e this M a resp w = (TReturn JUndefined, w)"
  by (simp add: try_response_def empty_response_def)

lemma try_response_ok:
  "\<not> empty_response resp \<Longrightarrow> ok resp \<Longrightarrow>
   try_response F e this M a resp w = (TReturn (decoded resp), note_decode (Responded resp) w)"
  by (simp add: try_response_def empty_response_def decoded_def json_typed_def note_decode_def Let_def)

lemma try_response_fail:
  "\<not> empty_response resp \<Longrightarrow> \<not> ok resp \<Longrightarrow>
   try_response F e this M a resp w =
     (if isRetryable (outcome_error F T (Responded resp)) \<and> int a < M - 1
      then (TContinue (outcome_error F T (Responded resp)), sleep_backoff e this a (note_decode (Responded resp) w))
      else (TThrow (CaughtChaindoc (outcome_error F T (Responded resp))), note_decode (Responded resp) w))"
  by (simp add: try_response_def empty_response_def decoded_def json_typed_def note_decode_def Let_def
      outcome_error_def isRetryableError_status ChaindocError_new_def)

lemma process_outcome_empty:
  "empty_response resp \<Longrightarrow> process_outcome F T e this M a (Responded resp) w = (Finished (Inr JUndefined), w)"
  by (simp add: process_outcome_def try_response_empty)

lemma process_outcome_ok:
  "\<not> empty_response resp \<Longrightarrow> ok resp \<Longrightarrow>
   process_outcome F T e this M a (Responded resp) w = (Finished (Inr (decoded resp)), note_decode (Responded resp) w)"
  by (simp add: process_outcome_def try_response_ok)

lemma process_outcome_fail:
  "\<not> empty_response resp \<Longrightarrow> \<not> ok resp \<Longrightarrow>
   process_outcome F T e this M a (Responded resp) w =
     (if isRetryable (outcome_error F T (Responded resp)) \<and> int a < M - 1
      then (Again (outcome_error F T (Responded resp)), sleep_backoff e this a (note_decode (Responded resp) w))
      else (Finished (Inl (outcome_error F T (Responded resp))), note_decode (Responded resp) w))"
  by (auto simp: process_outcome_def try_response_fail[where T=T] catch_error_def)

lemma process_outcome_rejected:
  "process_outcome F T e this M a (Rejected t) w =
     (if isRetryable (outcome_error F T (Rejected t)) \<and> int a < M - 1
      then (Again (outcome_error F T (Rejected t)), sleep_backoff e this a w)
      else (Finished (Inl (outcome_error F T (Rejected t))), w))"
  by (cases t) (auto simp: process_outcome_def catch_error_def outcome_error_def Let_def
      isRetryableError_thrown isRetryableError_NonError ChaindocError_new_def ChaindocError_msg_def)

lemma retryable_outcome_not_ok:
  "retryable_outcome (Responded resp) \<Longrightarrow> \<not> empty_response resp \<and> \<not> ok resp"
  by (auto simp: retryable_outcome_def ok_def)

lemma retryable_outcome_error:
  "retryable_outcome out \<Longrightarrow> isRetryable (outcome_error F T out)"
  by (auto simp: retryable_outcome_def outcome_error_def split: fetch_outcome.splits js_thrown.splits)

lemma process_outcome_retryable:
  assumes "retryable_outcome out"
  shows "process_outcome F T e this M a out w =
     (if int a < M - 1
      then (Again (outcome_error F T out), sleep_backoff e this a (note_decode out w))
      else (Finished (Inl (outcome_error F T out)), note_decode out w))"
proof (cases out)
  case (Responded resp)
  with assms show ?thesis
    using retryable_outcome_not_ok[of resp] retryable_outcome_error[OF assms, of F T]
    by (simp add: process_outcome_fail[where T=T])
next
  case (Rejected t)
  with assms show ?thesis
    using retryable_outcome_error[OF assms, of F T]
    by (simp add: process_outcome_rejected note_decode_def)
qed

lemma sleep_backoff_frame [simp]:
  "fetch_log (sleep_backoff e this a w) = fetch_log w"
  "formdata_heap (sleep_backoff e this a w) = formdata_heap w"
  "json_calls (sleep_backoff e this a w) = json_calls w"
  "length (sleep_log (sleep_backoff e this a w)) = Suc (length (sleep_log w))"
  by (simp_all add: sleep_backoff_def)

lemma note_decode_frame [simp]:
  "fetch_log (note_decode out w) = fetch_log w"
  "formdata_heap (note_decode out w) = formdata_heap w"
  "sleep_log (note_decode out w) = sleep_log w"
  "random_calls (note_decode out w) = random_calls w"
  by (simp_all add: note_decode_def split: fetch_outcome.splits)

lemma note_decode_empty: "empty_response resp \<Longrightarrow> note_decode (Responded resp) w = w"
  by (simp add: note_decode_def)

text \<open>Every outcome: the attempt either finishes the call or asks for the next attempt.\<close>

lemma process_outcome_shape:
  "(\<exists>r. process_outcome F T e this M a out w = (Finished r, note_decode out w)) \<or>
   (int a < M - 1 \<and> isRetryable (outcome_error F T out) \<and>
    process_outcome F T e this M a out w =
      (Again (outcome_error F T out), sleep_backoff e this a (note_decode out w)))"
proof (cases out)
  case (Rejected t)
  then show ?thesis by (simp add: process_outcome_rejected note_decode_def)
next
  case (Responded resp)
  show ?thesis
  proof (cases "empty_response resp")
    case True
    then show ?thesis using Responded by (simp add: process_outcome_empty note_decode_empty)
  next
    case False
    then show ?thesis using Responded
      by (cases "ok resp") (simp_all add: process_outcome_ok process_outcome_fail[where T=T])
  qed
qed

lemma process_outcome_last:
  "\<not> int a < M - 1 \<Longrightarrow> \<exists>r. process_outcome F T e this M a out w = (Finished r, note_decode out w)"
  using process_outcome_shape[of F T e this M a out w] by auto

subsection \<open>The loop of JSON requests\<close>

lemma attempt_outcome_Inr:
  "request_body e opts = Inr b \<Longrightarrow>
   attempt_outcome e this ep opts w i = fetch e (length (fetch_log w) + i) (request_call e this ep opts)"
  by (simp add: attempt_outcome_def)

lemma attempt_outcome_Inl:
  "request_body e opts = Inl t \<Longrightarrow> attempt_outcome e this ep opts w i = Rejected t"
  by (simp add: attempt_outcome_def)

lemma attempt_logged_Inr:
  "request_body e opts = Inr b \<Longrightarrow>
   attempt_logged e this ep opts w = w\<lparr>fetch_log := fetch_log w @ [request_call e this ep opts]\<rparr>"
  by (simp add: attempt_logged_def)

lemma attempt_logged_Inl:
  "request_body e opts = Inl t \<Longrightarrow> attempt_logged e this ep opts w = w"
  by (simp add: attempt_logged_def)

text \<open>A response is the outcome of an attempt only when the transport was called.\<close>

lemma attempt_outcome_Responded:
  "attempt_outcome e this ep opts w i = Responded resp \<Longrightarrow> \<exists>b. request_body e opts = Inr b"
  by (cases "request_body e opts") (simp_all add: attempt_outcome_def)

lemma attempt_logged_frame [simp]:
  "sleep_log (attempt_logged e this ep opts w) = sleep_log w"
  "json_calls (attempt_logged e this ep opts w) = json_calls w"
  "random_calls (attempt_logged e this ep opts w) = random_calls w"
  "formdata_heap (attempt_logged e this ep opts w) = formdata_heap w"
  by (cases "request_body e opts"; simp add: attempt_logged_def)+

lemma request_attempt_eq:
  "request_attempt e this ep opts M a w =
     process_outcome ''Request failed with status '' ''Request timeout'' e this M a
       (attempt_outcome e this ep opts w 0) (attempt_logged e this ep opts w)"
  by (cases "request_body e opts")
     (simp_all add: request_attempt_def attempt_outcome_def attempt_logged_def process_outcome_def
        Let_def)

text \<open>The outcome of an attempt depends on the world through the number of calls made.\<close>

lemma attempt_outcome_shift:
  assumes "fetch_log w' = fetch_log (attempt_logged e this ep opts w)"
  shows "attempt_outcome e this ep opts w' i = attempt_outcome e this ep opts w (Suc i)"
  using assms by (cases "request_body e opts") (simp_all add: attempt_outcome_def attempt_logged_def)

lemma request_loop_finished:
  "int a < M \<Longrightarrow> request_attempt e this ep opts M a w = (Finished r, w') \<Longrightarrow>
   request_loop e this ep opts M a le w = (r, w')"
  by (subst request_loop.simps) simp

lemma request_loop_again:
  "int a < M \<Longrightarrow> request_attempt e this ep opts M a w = (Again err, w') \<Longrightarrow>
   request_loop e this ep opts M a le w = request_loop e this ep opts M (Suc a) (Some err) w'"
  by (subst request_loop.simps) simp

text \<open>
  Every transport call of a request has the same arguments; with a body that serializes
  and an attempt left there is at least one call, and with a body whose serialization
  throws there is none.
\<close>

lemma request_loop_log:
  "\<exists>k. fetch_log (snd (request_loop e this ep opts M a le w))
         = fetch_log w @ replicate k (request_call e this ep opts)
       \<and> int k \<le> max 0 (M - int a)
       \<and> ((\<exists>b. request_body e opts = Inr b) \<and> int a < M \<longrightarrow> 0 < k)
       \<and> ((\<exists>t. request_body e opts = Inl t) \<longrightarrow> k = 0)"
proof (induction e this ep opts M a le w rule: request_loop.induct)
  case (1 e this ep opts M a le w)
  let ?c = "request_call e this ep opts"
  let ?out = "attempt_outcome e this ep opts w 0"
  let ?w1 = "attempt_logged e this ep opts w"
  let ?F = "''Request failed with status ''" and ?T = "''Request timeout''"
  let ?j = "if (\<exists>b. request_body e opts = Inr b) then 1 else 0 :: nat"
  have w1: "fetch_log ?w1 = fetch_log w @ replicate ?j ?c"
    by (cases "request_body e opts") (simp_all add: attempt_logged_def)
  have j0: "(\<exists>t. request_body e opts = Inl t) \<longrightarrow> ?j = 0" by auto
  show ?case
  proof (cases "int a < M")
    case False
    then show ?thesis
      by (subst request_loop.simps) (auto intro: exI[of _ 0])
  next
    case True
    from process_outcome_shape[of ?F ?T e this M a ?out ?w1]
    show ?thesis
    proof (elim disjE exE conjE)
      fix r
      assume "process_outcome ?F ?T e this M a ?out ?w1 = (Finished r, note_decode ?out ?w1)"
      then have "request_loop e this ep opts M a le w = (r, note_decode ?out ?w1)"
        using True by (intro request_loop_finished) (simp_all add: request_attempt_eq)
      then have "fetch_log (snd (request_loop e this ep opts M a le w)) = fetch_log w @ replicate ?j ?c"
        using w1 by simp
      moreover have "int ?j \<le> max 0 (M - int a)" using True by simp
      moreover have "(\<exists>b. request_body e opts = Inr b) \<and> int a < M \<longrightarrow> 0 < ?j" by simp
      ultimately show ?thesis using j0 by blast
    next
      let ?err = "outcome_error ?F ?T ?out"
      let ?w2 = "sleep_backoff e this a (note_decode ?out ?w1)"
      assume A: "process_outcome ?F ?T e this M a ?out ?w1 = (Again ?err, ?w2)"
        and lt: "int a < M - 1"
      then have ra: "request_attempt e this ep opts M a w = (Again ?err, ?w2)"
        by (simp add: request_attempt_eq)
      have eq: "request_loop e this ep opts M a le w
                  = request_loop e this ep opts M (Suc a) (Some ?err) ?w2"
        using True ra by (rule request_loop_again)
      from "1.IH"[OF True ra[symmetric] refl] obtain k where
        k: "fetch_log (snd (request_loop e this ep opts M (Suc a) (Some ?err) ?w2))
              = fetch_log ?w2 @ replicate k ?c"
           "int k \<le> max 0 (M - int (Suc a))"
           "(\<exists>t. request_body e opts = Inl t) \<longrightarrow> k = 0"
        by auto
      have "fetch_log (snd (request_loop e this ep opts M a le w))
              = fetch_log w @ replicate (?j + k) ?c"
        using k(1) eq w1 by (simp add: replicate_add)
      moreover have "int (?j + k) \<le> max 0 (M - int a)" using k(2) lt by auto
      moreover have "(\<exists>b. request_body e opts = Inr b) \<and> int a < M \<longrightarrow> 0 < ?j + k" by simp
      moreover have "(\<exists>t. request_body e opts = Inl t) \<longrightarrow> ?j + k = 0" using k(3) j0 by auto
      ultimately show ?thesis by blast
    qed
  qed
qed

text \<open>
  When every outcome is a retryable failure, the loop uses all the attempts that are left
  and raises the error of the last one.
\<close>

lemma request_loop_exhaust:
  "(\<forall>n c. retryable_outcome (fetch e n c)) \<Longrightarrow> request_body e opts = Inr b \<Longrightarrow> int a < M \<Longrightarrow>
    \<exists>w'. request_loop e this ep opts M a le w =
            (Inl (outcome_error ''Request failed with status '' ''Request timeout''
                   (fetch e (length (fetch_log w) + nat (M - int a) - 1) (request_call e this ep opts))), w')
        \<and> fetch_log w' = fetch_log w @ replicate (nat (M - int a)) (request_call e this ep opts)
        \<and> length (sleep_log w') = length (sleep_log w) + nat (M - int a) - 1"
proof (induction e this ep opts M a le w rule: request_loop.induct)
  case (1 e this ep opts M a le w)
  let ?c = "request_call e this ep opts"
  let ?out = "fetch e (length (fetch_log w)) ?c"
  let ?w1 = "w\<lparr>fetch_log := fetch_log w @ [?c]\<rparr>"
  let ?err = "outcome_error ''Request failed with status '' ''Request timeout'' ?out"
  have ro: "retryable_outcome ?out" using "1.prems"(1) by blast
  have sb: "request_body e opts = Inr b" using "1.prems"(2) .
  have lt: "int a < M" using "1.prems"(3) .
  have ao: "attempt_outcome e this ep opts w 0 = ?out" "attempt_logged e this ep opts w = ?w1"
    using sb by (simp_all add: attempt_outcome_def attempt_logged_def)
  show ?case
  proof (cases "int a < M - 1")
    case False
    then have M: "nat (M - int a) = 1" using lt by linarith
    have "request_attempt e this ep opts M a w = (Finished (Inl ?err), note_decode ?out ?w1)"
      using False by (simp add: request_attempt_eq ao process_outcome_retryable[OF ro])
    then have "request_loop e this ep opts M a le w = (Inl ?err, note_decode ?out ?w1)"
      using lt by (intro request_loop_finished)
    then show ?thesis by (simp add: M)
  next
    case True
    let ?w2 = "sleep_backoff e this a (note_decode ?out ?w1)"
    have ra: "request_attempt e this ep opts M a w = (Again ?err, ?w2)"
      using True by (simp add: request_attempt_eq ao process_outcome_retryable[OF ro])
    have eq: "request_loop e this ep opts M a le w
                = request_loop e this ep opts M (Suc a) (Some ?err) ?w2"
      using lt ra by (rule request_loop_again)
    have lt': "int (Suc a) < M" using True by simp
    define k where "k = nat (M - int (Suc a))"
    have n: "nat (M - int a) = Suc k" unfolding k_def using True by linarith
    have p: "0 < k" unfolding k_def using True by linarith
    from "1.IH"[OF lt ra[symmetric] refl "1.prems"(1) sb lt']
    obtain w' where w': "request_loop e this ep opts M (Suc a) (Some ?err) ?w2 =
            (Inl (outcome_error ''Request failed with status '' ''Request timeout''
                   (fetch e (length (fetch_log ?w2) + k - 1) ?c)), w')"
        "fetch_log w' = fetch_log ?w2 @ replicate k ?c"
        "length (sleep_log w') = length (sleep_log ?w2) + k - 1"
      unfolding k_def by blast
    have len: "length (fetch_log ?w2) + k - 1 = length (fetch_log w) + Suc k - 1"
      using p by simp
    have r1: "request_loop e this ep opts M a le w =
            (Inl (outcome_error ''Request failed with status '' ''Request timeout''
                   (fetch e (length (fetch_log w) + Suc k - 1) ?c)), w')"
      using eq w'(1) len by simp
    have r2: "fetch_log w' = fetch_log w @ replicate (Suc k) ?c"
      using w'(2) by simp
    have r3: "length (sleep_log w') = length (sleep_log w) + Suc k - 1"
      using w'(3) p by simp
    show ?thesis unfolding n using r1 r2 r3 by blast
  qed
qed

text \<open>With a budget of one attempt, the call is that attempt.\<close>

lemma request_loop_single:
  "\<exists>r. request_loop e this ep opts 1 0 le w =
     (r, note_decode (attempt_outcome e this ep opts w 0) (attempt_logged e this ep opts w))
     \<and> request_attempt e this ep opts 1 0 w =
     (Finished r, note_decode (attempt_outcome e this ep opts w 0) (attempt_logged e this ep opts w))"
proof -
  let ?out = "attempt_outcome e this ep opts w 0"
  let ?w1 = "attempt_logged e this ep opts w"
  obtain r where r: "request_attempt e this ep opts 1 0 w = (Finished r, note_decode ?out ?w1)"
    using process_outcome_last[of 0 1 "''Request failed with status ''" "''Request timeout''" e this ?out ?w1]
    by (auto simp: request_attempt_eq)
  then have "request_loop e this ep opts 1 0 le w = (r, note_decode ?out ?w1)"
    by (intro request_loop_finished) simp_all
  with r show ?thesis by blast
qed

text \<open>
  After \<open>n\<close> attempts whose outcomes are retryable failures, with an attempt left after
  them, the loop is at attempt \<open>a + n\<close> in the world \<open>retried\<close> describes.
\<close>

lemma request_loop_retried:
  "(\<forall>i<n. retryable_outcome (attempt_outcome e this ep opts w i)) \<Longrightarrow> int (a + n) < M \<Longrightarrow>
   \<exists>le'. request_loop e this ep opts M a le w
           = request_loop e this ep opts M (a + n) le' (retried e this ep opts a n w)"
proof (induction n arbitrary: a le w)
  case 0
  then show ?case by auto
next
  case (Suc n)
  let ?out = "attempt_outcome e this ep opts w 0"
  let ?w1 = "attempt_logged e this ep opts w"
  let ?err = "outcome_error ''Request failed with status '' ''Request timeout'' ?out"
  let ?w2 = "sleep_backoff e this a (note_decode ?out ?w1)"
  have ro: "retryable_outcome ?out" using Suc.prems(1) by simp
  have lt: "int a < M - 1" "int a < M" using Suc.prems(2) by simp_all
  have ra: "request_attempt e this ep opts M a w = (Again ?err, ?w2)"
    using lt by (simp add: request_attempt_eq process_outcome_retryable[OF ro])
  have eq: "request_loop e this ep opts M a le w
              = request_loop e this ep opts M (Suc a) (Some ?err) ?w2"
    using lt(2) ra by (rule request_loop_again)
  have sh: "attempt_outcome e this ep opts ?w2 i = attempt_outcome e this ep opts w (Suc i)" for i
    by (rule attempt_outcome_shift) simp
  have pre: "\<forall>i<n. retryable_outcome (attempt_outcome e this ep opts ?w2 i)"
    using Suc.prems(1) by (simp add: sh)
  have lt2: "int (Suc a + n) < M" using Suc.prems(2) by simp
  from Suc.IH[OF pre lt2, of "Some ?err"] obtain le' where
    "request_loop e this ep opts M (Suc a) (Some ?err) ?w2
       = request_loop e this ep opts M (Suc a + n) le' (retried e this ep opts (Suc a) n ?w2)"
    by blast
  then show ?case unfolding eq by (intro exI[of _ le']) simp
qed

lemma retried_log:
  "(\<exists>b. request_body e opts = Inr b) \<Longrightarrow>
   fetch_log (retried e this ep opts a n w) = fetch_log w @ replicate n (request_call e this ep opts)
   \<and> length (sleep_log (retried e this ep opts a n w)) = length (sleep_log w) + n"
proof (induction n arbitrary: a w)
  case 0
  then show ?case by simp
next
  case (Suc n)
  from Suc.prems obtain b where b: "request_body e opts = Inr b" by blast
  show ?case
    using Suc.IH[OF Suc.prems] by (simp add: attempt_logged_Inr[OF b] replicate_app_Cons_same)
qed

lemma retried_outcome:
  "(\<exists>b. request_body e opts = Inr b) \<Longrightarrow>
   attempt_outcome e this ep opts (retried e this ep opts a n w) 0 = attempt_outcome e this ep opts w n"
  using retried_log[of e opts this ep a n w] by (auto simp: attempt_outcome_def)

subsection \<open>The loop of multipart uploads\<close>

lemma fold_FormData_append:
  "a < length (formdata_heap w) \<Longrightarrow>
   fold (FormData_append a fn) files w =
     w\<lparr>formdata_heap := (formdata_heap w)[a := formdata_heap w ! a @ map (Pair fn) files]\<rparr>"
proof (induction files arbitrary: w)
  case Nil
  then show ?case by simp
next
  case (Cons f files)
  then show ?case by (simp add: FormData_append_def)
qed

lemma build_form_eq:
  "build_form fn files w =
     (length (formdata_heap w), w\<lparr>formdata_heap := formdata_heap w @ [map (Pair fn) files]\<rparr>)"
  by (simp add: build_form_def FormData_new_def fold_FormData_append)

lemma upload_attempt_eq:
  "upload_attempt e this ep files fn M a w =
     process_outcome ''Upload failed with status '' ''Upload timeout'' e this M a
       (fetch e (length (fetch_log w)) (upload_call this ep (length (formdata_heap w))))
       (w\<lparr>formdata_heap := formdata_heap w @ [map (Pair fn) files],
          fetch_log := fetch_log w @ [upload_call this ep (length (formdata_heap w))]\<rparr>)"
  by (simp add: upload_attempt_def build_form_eq Let_def)

lemma map_upt_shift: "map f [0..<Suc k] = f 0 # map (\<lambda>i. f (Suc i)) [0..<k]"
  by (simp add: upt_conv_Cons map_Suc_upt[symmetric] del: upt_Suc)

lemma uploadFiles_loop_log:
  "\<exists>k. fetch_log (snd (uploadFiles_loop e this ep files fn M a le w))
          = fetch_log w @ map (\<lambda>i. upload_call this ep (length (formdata_heap w) + i)) [0..<k]
      \<and> formdata_heap (snd (uploadFiles_loop e this ep files fn M a le w))
          = formdata_heap w @ replicate k (map (Pair fn) files)
      \<and> int k \<le> max 0 (M - int a)
      \<and> (int a < M \<longrightarrow> 0 < k)
      \<and> ((\<forall>n c. retryable_outcome (fetch e n c)) \<longrightarrow> int k = max 0 (M - int a))"
proof (induction e this ep files fn M a le w rule: uploadFiles_loop.induct)
  case (1 e this ep files fn M a le w)
  let ?h = "length (formdata_heap w)"
  let ?c = "upload_call this ep ?h"
  let ?out = "fetch e (length (fetch_log w)) ?c"
  let ?w1 = "w\<lparr>formdata_heap := formdata_heap w @ [map (Pair fn) files],
               fetch_log := fetch_log w @ [?c]\<rparr>"
  let ?F = "''Upload failed with status ''" and ?T = "''Upload timeout''"
  show ?case
  proof (cases "int a < M")
    case False
    then show ?thesis
      by (subst (1 2) uploadFiles_loop.simps) (auto intro: exI[of _ 0])
  next
    case True
    from process_outcome_shape[of ?F ?T e this M a ?out ?w1]
    show ?thesis
    proof (elim disjE exE conjE)
      fix r
      assume fin: "process_outcome ?F ?T e this M a ?out ?w1 = (Finished r, note_decode ?out ?w1)"
      then have eq: "uploadFiles_loop e this ep files fn M a le w = (r, note_decode ?out ?w1)"
        using True by (subst uploadFiles_loop.simps) (simp add: upload_attempt_eq)
      have "int 1 = max 0 (M - int a)" if "\<forall>n c. retryable_outcome (fetch e n c)"
      proof -
        have "retryable_outcome ?out" using that by blast
        from process_outcome_retryable[OF this, of ?F ?T e this M a ?w1] fin
        have "\<not> int a < M - 1" by (auto split: if_splits)
        with True show ?thesis by simp
      qed
      then show ?thesis unfolding eq using True by (intro exI[of _ 1]) auto
    next
      let ?err = "outcome_error ?F ?T ?out"
      let ?w2 = "sleep_backoff e this a (note_decode ?out ?w1)"
      assume A: "process_outcome ?F ?T e this M a ?out ?w1 = (Again ?err, ?w2)" and lt: "int a < M - 1"
      then have ra: "upload_attempt e this ep files fn M a w = (Again ?err, ?w2)"
        by (simp add: upload_attempt_eq)
      have eq: "uploadFiles_loop e this ep files fn M a le w
                  = uploadFiles_loop e this ep files fn M (Suc a) (Some ?err) ?w2"
        using True ra by (subst uploadFiles_loop.simps) simp
      let ?R = "uploadFiles_loop e this ep files fn M (Suc a) (Some ?err) ?w2"
      from "1.IH"[OF True ra[symmetric] refl] obtain k where
        k: "fetch_log (snd ?R) = fetch_log ?w2 @ map (\<lambda>i. upload_call this ep (length (formdata_heap ?w2) + i)) [0..<k]"
           "formdata_heap (snd ?R) = formdata_heap ?w2 @ replicate k (map (Pair fn) files)"
           "int k \<le> max 0 (M - int (Suc a))"
           "(\<forall>n c. retryable_outcome (fetch e n c)) \<longrightarrow> int k = max 0 (M - int (Suc a))"
        by blast
      have l: "fetch_log (snd ?R) = fetch_log w @ map (\<lambda>i. upload_call this ep (?h + i)) [0..<Suc k]"
        using k(1) by (simp add: map_upt_shift del: upt_Suc)
      have h: "formdata_heap (snd ?R) = formdata_heap w @ replicate (Suc k) (map (Pair fn) files)"
        using k(2) by (simp add: replicate_app_Cons_same)
      have b: "int (Suc k) \<le> max 0 (M - int a)" using k(3) lt by auto
      have x: "(\<forall>n c. retryable_outcome (fetch e n c)) \<longrightarrow> int (Suc k) = max 0 (M - int a)"
        using k(4) lt by auto
      show ?thesis unfolding eq using l h b x by (intro exI[of _ "Suc k"]) simp
    qed
  qed
qed

subsection \<open>Construction\<close>

text \<open>
  Claim C7. Constructing the client fails exactly when the secret key is missing or does
  not start with the prefix \<open>sk_\<close>; every key that starts with \<open>sk_\<close> passes, whatever
  follows the prefix. The constructor is a function of the configuration alone: it has
  no access to the transport.
\<close>

theorem HttpClient_new_fails_iff:
  "((\<exists>err. HttpClient_new config = Inl err) \<longleftrightarrow>
      (cfg_secretKey config = None \<or>
       (\<exists>key. cfg_secretKey config = Some key \<and> \<not> startsWith key ''sk_'')))
   \<and> (\<exists>this. HttpClient_new (config\<lparr>cfg_secretKey := Some (''sk_'' @ rest)\<rparr>) = Inr this)"
  by (auto simp: HttpClient_new_def startsWith_def split: option.splits)

theorem HttpClient_new_fails_iff_witness:
  "(\<exists>err. HttpClient_new (staging_config\<lparr>cfg_secretKey := Some ''pk_live''\<rparr>) = Inl err)
   \<and> (\<exists>err. HttpClient_new (staging_config\<lparr>cfg_secretKey := None\<rparr>) = Inl err)
   \<and> \<not> (\<exists>err. HttpClient_new staging_config = Inl err)
   \<and> (\<exists>this. HttpClient_new (staging_config\<lparr>cfg_secretKey := Some (''sk_'' @ ''?'')\<rparr>) = Inr this)"
  using HttpClient_new_fails_iff [of "staging_config\<lparr>cfg_secretKey := Some ''pk_live''\<rparr>" "''?''"]
    HttpClient_new_fails_iff [of "staging_config\<lparr>cfg_secretKey := None\<rparr>" "''?''"]
    HttpClient_new_fails_iff [of staging_config "''?''"]
  by (simp add: staging_config_def startsWith_def)

text \<open>The base address of a constructed client does not depend on the environment.\<close>

lemma HttpClient_new_baseUrl:
  "HttpClient_new config = Inr this \<Longrightarrow>
   baseUrl this = strip_trailing_slash (nullish (cfg_baseUrl config) DEFAULT_BASE_URL)"
  by (auto simp: HttpClient_new_def split: option.splits if_splits)

text \<open>
  Claim C9. The claim is that the staging and development environments select their
  documented alternate address. The constructor never reads \<open>cfg_environment\<close>: for the
  staging configuration the base address is the production one.
\<close>

theorem staging_uses_production_address:
  "map_sum message baseUrl (HttpClient_new staging_config) = Inr ''https://api.chaindoc.io''
   \<and> documented_url Staging = ''https://api-demo.chaindoc.io''
   \<and> map_sum message baseUrl (HttpClient_new (staging_config\<lparr>cfg_environment := Some Development\<rparr>))
       = Inr ''https://api.chaindoc.io''"
  by (simp add: HttpClient_new_def staging_config_def startsWith_def nullish_def
      DEFAULT_BASE_URL_def strip_trailing_slash_def)

subsection \<open>Retry budget of JSON requests\<close>

lemma constant_env_fetch [simp]: "fetch (constant_env out) n c = out"
  by (simp add: constant_env_def scripted_env_def)

lemma constant_env_stringify [simp]: "JSON_stringify (constant_env out) = example_stringify"
  by (simp add: constant_env_def scripted_env_def)

lemma request_body_falsy: "\<not> truthy (opt_body opts) \<Longrightarrow> request_body e opts = Inr NoBody"
  by (simp add: request_body_def)

lemma request_body_no_options [simp]:
  "request_body e no_options = Inr NoBody"
  "request_body e (no_options\<lparr>opt_noRetry := x\<rparr>) = Inr NoBody"
  by (simp_all add: request_body_def no_options_def)

text \<open>
  When every outcome is one the executor classifies as a retryable failure and retry is
  enabled with \<open>maxRetries = r \<ge> 0\<close>, the call makes exactly \<open>r + 1\<close> transport calls,
  sleeps \<open>r\<close> times and raises the error of the last attempt.
\<close>

lemma request_retryable_exhausts:
  assumes "0 \<le> maxRetries (retryConfig this)" and "opt_noRetry opts \<noteq> Some True"
    and "\<forall>n c. retryable_outcome (fetch e n c)" and "request_body e opts = Inr b"
  shows "\<exists>w'. request e this ep opts w =
            (Inl (outcome_error ''Request failed with status '' ''Request timeout''
                   (fetch e (length (fetch_log w) + nat (maxRetries (retryConfig this)))
                      (request_call e this ep opts))), w')
        \<and> fetch_log w' = fetch_log w @
             replicate (nat (maxRetries (retryConfig this)) + 1) (request_call e this ep opts)
        \<and> length (sleep_log w') = length (sleep_log w) + nat (maxRetries (retryConfig this))"
proof -
  let ?M = "maxRetries (retryConfig this) + 1"
  have lt: "int 0 < ?M" using assms(1) by simp
  have n: "nat (?M - int 0) = nat (maxRetries (retryConfig this)) + 1" using assms(1) by simp
  from request_loop_exhaust[OF assms(3,4) lt, of this ep None w]
  show ?thesis unfolding n using assms(2) by (simp add: request_def)
qed

text \<open>
  Claim C1. The claim holds for the outcomes the executor classifies
  (\<open>request_retryable_exhausts\<close>), but a response with status 503 is not classified when
  its \<^verbatim>\<open>content-length\<close> header is \<^verbatim>\<open>"0"\<close>: the check for an empty response returns before
  \<^verbatim>\<open>response.ok\<close> is looked at. With \<open>maxRetries = 3\<close> and such a response on every attempt
  the call makes one transport call, does not sleep, and returns "no value".
\<close>

theorem request_empty_503_returns:
  "maxRetries (retryConfig example_client) = 3
   \<and> request (constant_env (Responded (response_of 503 [''content-length'' \<mapsto> ''0''] None)))
        example_client ''/api/v1/health'' no_options world0
     = (Inr JUndefined,
        world0\<lparr>fetch_log :=
          [request_call (constant_env (Responded (response_of 503 [''content-length'' \<mapsto> ''0''] None)))
             example_client ''/api/v1/health'' no_options]\<rparr>)"
proof -
  let ?e = "constant_env (Responded (response_of 503 [''content-length'' \<mapsto> ''0''] None))"
  let ?c = "request_call ?e example_client ''/api/v1/health'' no_options"
  have em: "empty_response (response_of 503 [''content-length'' \<mapsto> ''0''] None)"
    by (simp add: empty_response_def response_of_def)
  have "request_attempt ?e example_client ''/api/v1/health'' no_options 4 0 world0
          = (Finished (Inr JUndefined), world0\<lparr>fetch_log := [?c]\<rparr>)"
    unfolding request_attempt_eq
    by (simp add: attempt_outcome_def attempt_logged_def process_outcome_empty[OF em] world0_def)
  then have "request_loop ?e example_client ''/api/v1/health'' no_options 4 0 None world0
          = (Inr JUndefined, world0\<lparr>fetch_log := [?c]\<rparr>)"
    by (intro request_loop_finished) simp_all
  moreover have "maxRetries (retryConfig example_client) = 3" "opt_noRetry no_options = None"
    by (simp_all add: example_client_def no_options_def)
  ultimately show ?thesis by (simp add: request_def)
qed

text \<open>
  With \<open>noRetry = true\<close> the call makes at most one transport call and never sleeps (no
  random draw either), whatever \<open>maxRetries\<close> is and whatever the transport does; the
  call's result is the result of that attempt.
\<close>

lemma request_noRetry_single_attempt:
  assumes "opt_noRetry opts = Some True"
  shows "\<exists>r w'. request e this ep opts w = (r, w')
     \<and> request_attempt e this ep opts 1 0 w = (Finished r, w')
     \<and> fetch_log w' = fetch_log (attempt_logged e this ep opts w)
     \<and> sleep_log w' = sleep_log w
     \<and> random_calls w' = random_calls w
     \<and> (retryable_outcome (attempt_outcome e this ep opts w 0) \<longrightarrow>
          r = Inl (outcome_error ''Request failed with status '' ''Request timeout''
                    (attempt_outcome e this ep opts w 0)))"
proof -
  let ?out = "attempt_outcome e this ep opts w 0"
  let ?w1 = "attempt_logged e this ep opts w"
  obtain r where r: "request_loop e this ep opts 1 0 None w = (r, note_decode ?out ?w1)"
    "request_attempt e this ep opts 1 0 w = (Finished r, note_decode ?out ?w1)"
    using request_loop_single[of e this ep opts None w] by blast
  have imp: "r = Inl (outcome_error ''Request failed with status '' ''Request timeout'' ?out)"
    if ro: "retryable_outcome ?out"
    using r(2) process_outcome_retryable[OF ro, of "''Request failed with status ''" "''Request timeout''" e this 1 0 ?w1]
    by (auto simp: request_attempt_eq)
  have req: "request e this ep opts w = (r, note_decode ?out ?w1)"
    using r(1) assms by (simp add: request_def)
  have frame: "fetch_log (note_decode ?out ?w1) = fetch_log ?w1"
    "sleep_log (note_decode ?out ?w1) = sleep_log w"
    "random_calls (note_decode ?out ?w1) = random_calls w"
    by simp_all
  from req r(2) frame imp show ?thesis by blast
qed

text \<open>
  Claim C5. The count of the claim holds (\<open>request_noRetry_single_attempt\<close>), but a
  retryable failure is not always raised: with \<open>noRetry = true\<close>, a response with status
  503 whose \<^verbatim>\<open>content-length\<close> header is \<^verbatim>\<open>"0"\<close> ends the call after its one transport call
  with "no value"; no error is raised. This is the early return of claim C1.
\<close>

theorem request_noRetry_empty_503_returns:
  "opt_noRetry (no_options\<lparr>opt_noRetry := Some True\<rparr>) = Some True
   \<and> request (constant_env (Responded (response_of 503 [''content-length'' \<mapsto> ''0''] None)))
        example_client ''/api/v1/health'' (no_options\<lparr>opt_noRetry := Some True\<rparr>) world0
     = (Inr JUndefined,
        world0\<lparr>fetch_log :=
          [request_call (constant_env (Responded (response_of 503 [''content-length'' \<mapsto> ''0''] None)))
             example_client ''/api/v1/health'' (no_options\<lparr>opt_noRetry := Some True\<rparr>)]\<rparr>)"
proof -
  let ?e = "constant_env (Responded (response_of 503 [''content-length'' \<mapsto> ''0''] None))"
  let ?o = "no_options\<lparr>opt_noRetry := Some True\<rparr>"
  let ?c = "request_call ?e example_client ''/api/v1/health'' ?o"
  have em: "empty_response (response_of 503 [''content-length'' \<mapsto> ''0''] None)"
    by (simp add: empty_response_def response_of_def)
  have "request_attempt ?e example_client ''/api/v1/health'' ?o 1 0 world0
          = (Finished (Inr JUndefined), world0\<lparr>fetch_log := [?c]\<rparr>)"
    unfolding request_attempt_eq
    by (simp add: attempt_outcome_def attempt_logged_def process_outcome_empty[OF em] world0_def)
  then have "request_loop ?e example_client ''/api/v1/health'' ?o 1 0 None world0
          = (Inr JUndefined, world0\<lparr>fetch_log := [?c]\<rparr>)"
    by (intro request_loop_finished) simp_all
  then show ?thesis by (simp add: request_def)
qed

subsection \<open>Request body\<close>

text \<open>
  Claim C10, as stated, fails for a truthy body that \<^verbatim>\<open>JSON.stringify\<close> does not
  serialize: a function is truthy, \<^verbatim>\<open>JSON.stringify\<close> returns \<^verbatim>\<open>undefined\<close> for it, and
  the transport call is issued with an absent body.
\<close>

theorem request_function_body_absent:
  "truthy (opt_body (no_options\<lparr>opt_method := Some POST, opt_body := JFunction\<rparr>))
   \<and> map call_body
        (fetch_log (snd (request (constant_env (Responded (response_of 204 Map.empty None)))
           example_client ''/api/v1/documents''
           (no_options\<lparr>opt_method := Some POST, opt_body := JFunction\<rparr>) world0)))
     = [NoBody]"
proof -
  let ?e = "constant_env (Responded (response_of 204 Map.empty None))"
  let ?o = "no_options\<lparr>opt_method := Some POST, opt_body := JFunction\<rparr>"
  let ?c = "request_call ?e example_client ''/api/v1/documents'' ?o"
  have rb: "request_body ?e ?o = Inr NoBody" by (simp add: request_body_def)
  have em: "empty_response (response_of 204 Map.empty None)"
    by (simp add: empty_response_def response_of_def)
  have "request_attempt ?e example_client ''/api/v1/documents'' ?o 4 0 world0
          = (Finished (Inr JUndefined), world0\<lparr>fetch_log := [?c]\<rparr>)"
    unfolding request_attempt_eq
    by (simp add: attempt_outcome_Inr[OF rb] attempt_logged_Inr[OF rb] process_outcome_empty[OF em]
        world0_def)
  then have "request_loop ?e example_client ''/api/v1/documents'' ?o 4 0 None world0
          = (Inr JUndefined, world0\<lparr>fetch_log := [?c]\<rparr>)"
    by (intro request_loop_finished) simp_all
  moreover have "maxRetries (retryConfig example_client) = 3" "opt_noRetry ?o = None"
    by (simp_all add: example_client_def no_options_def)
  ultimately have "request ?e example_client ''/api/v1/documents'' ?o world0
          = (Inr JUndefined, world0\<lparr>fetch_log := [?c]\<rparr>)"
    by (simp add: request_def)
  moreover have "call_body ?c = NoBody" by (simp add: request_call_def rb)
  ultimately show ?thesis by simp
qed

text \<open>
  Claim C10, amended. Let the budget of a JSON request be at least one attempt. If the
  body argument is falsy (in particular 0, \<open>false\<close>, the empty string and \<open>null\<close>) the
  request issues at least one transport call, and every call it issues has an absent body.
  If the body argument is truthy, what is attached is what \<^verbatim>\<open>JSON.stringify\<close> gives: when
  it returns a string, at least one call is issued and every call carries that string;
  when it returns \<^verbatim>\<open>undefined\<close>, at least one call is issued and every call has an absent
  body; when it throws, no transport call is issued.
\<close>

theorem request_body_attached:
  assumes "opt_noRetry opts = Some True \<or> 0 \<le> maxRetries (retryConfig this)"
  shows
    "(\<not> truthy (opt_body opts) \<longrightarrow>
        (\<exists>k>0. fetch_log (snd (request e this ep opts w))
                 = fetch_log w @ replicate k (request_call e this ep opts))
        \<and> call_body (request_call e this ep opts) = NoBody)
   \<and> (\<forall>s. truthy (opt_body opts) \<and> JSON_stringify e (opt_body opts) = Serialized s \<longrightarrow>
        (\<exists>k>0. fetch_log (snd (request e this ep opts w))
                 = fetch_log w @ replicate k (request_call e this ep opts))
        \<and> call_body (request_call e this ep opts) = TextBody s)
   \<and> (truthy (opt_body opts) \<and> JSON_stringify e (opt_body opts) = NotSerialized \<longrightarrow>
        (\<exists>k>0. fetch_log (snd (request e this ep opts w))
                 = fetch_log w @ replicate k (request_call e this ep opts))
        \<and> call_body (request_call e this ep opts) = NoBody)
   \<and> (\<forall>t. truthy (opt_body opts) \<and> JSON_stringify e (opt_body opts) = StringifyThrows t \<longrightarrow>
        fetch_log (snd (request e this ep opts w)) = fetch_log w)
   \<and> (opt_body opts \<in> {JNum 0, JBool False, JStr [], JNull} \<longrightarrow> \<not> truthy (opt_body opts))"
proof -
  let ?M = "if opt_noRetry opts = Some True then 1 else maxRetries (retryConfig this) + 1"
  let ?c = "request_call e this ep opts"
  have M: "int 0 < ?M" using assms by auto
  have R: "request e this ep opts w = request_loop e this ep opts ?M 0 None w"
    by (simp add: request_def)
  from request_loop_log[of e this ep opts ?M 0 None w] obtain k where
    k: "fetch_log (snd (request e this ep opts w)) = fetch_log w @ replicate k ?c"
       "(\<exists>b. request_body e opts = Inr b) \<and> int 0 < ?M \<longrightarrow> 0 < k"
       "(\<exists>t. request_body e opts = Inl t) \<longrightarrow> k = 0"
    unfolding R by blast
  have issued: "\<exists>k>0. fetch_log (snd (request e this ep opts w)) = fetch_log w @ replicate k ?c"
    if "request_body e opts = Inr b" for b
    using k(1,2) M that by blast
  have a: "(\<exists>k>0. fetch_log (snd (request e this ep opts w)) = fetch_log w @ replicate k ?c)
        \<and> call_body ?c = NoBody" if "\<not> truthy (opt_body opts)"
    using issued[of NoBody] that by (simp add: request_body_def request_call_def)
  have b: "(\<exists>k>0. fetch_log (snd (request e this ep opts w)) = fetch_log w @ replicate k ?c)
        \<and> call_body ?c = TextBody s"
    if "truthy (opt_body opts) \<and> JSON_stringify e (opt_body opts) = Serialized s" for s
    using issued[of "TextBody s"] that by (simp add: request_body_def request_call_def)
  have c: "(\<exists>k>0. fetch_log (snd (request e this ep opts w)) = fetch_log w @ replicate k ?c)
        \<and> call_body ?c = NoBody"
    if "truthy (opt_body opts) \<and> JSON_stringify e (opt_body opts) = NotSerialized"
    using issued[of NoBody] that by (simp add: request_body_def request_call_def)
  have d: "fetch_log (snd (request e this ep opts w)) = fetch_log w"
    if "truthy (opt_body opts) \<and> JSON_stringify e (opt_body opts) = StringifyThrows t" for t
  proof -
    have "request_body e opts = Inl t" using that by (simp add: request_body_def)
    then show ?thesis using k(1,3) by auto
  qed
  have f: "opt_body opts \<in> {JNum 0, JBool False, JStr [], JNull} \<longrightarrow> \<not> truthy (opt_body opts)"
    by auto
  from a b c d f show ?thesis by blast
qed

theorem request_body_attached_witness:
  "(opt_noRetry no_options = Some True \<or> 0 \<le> maxRetries (retryConfig example_client))
   \<and> opt_body (no_options\<lparr>opt_method := Some POST, opt_body := JNum 0\<rparr>)
        \<in> {JNum 0, JBool False, JStr [], JNull}
   \<and> (\<exists>k>0. fetch_log (snd (request (constant_env (Responded (response_of 204 Map.empty None)))
          example_client ''/api/v1/documents''
          (no_options\<lparr>opt_method := Some POST, opt_body := JNum 0\<rparr>) world0))
        = fetch_log world0 @ replicate k
            (request_call (constant_env (Responded (response_of 204 Map.empty None)))
               example_client ''/api/v1/documents''
               (no_options\<lparr>opt_method := Some POST, opt_body := JNum 0\<rparr>)))
   \<and> call_body (request_call (constant_env (Responded (response_of 204 Map.empty None)))
        example_client ''/api/v1/documents''
        (no_options\<lparr>opt_method := Some POST, opt_body := JNum 0\<rparr>)) = NoBody
   \<and> (\<exists>k>0. fetch_log (snd (request (constant_env (Responded (response_of 204 Map.empty None)))
          example_client ''/api/v1/documents''
          (no_options\<lparr>opt_method := Some POST, opt_body := JObj [(''name'', JStr ''Contract'')]\<rparr>) world0))
        = fetch_log world0 @ replicate k
            (request_call (constant_env (Responded (response_of 204 Map.empty None)))
               example_client ''/api/v1/documents''
               (no_options\<lparr>opt_method := Some POST, opt_body := JObj [(''name'', JStr ''Contract'')]\<rparr>)))
   \<and> call_body (request_call (constant_env (Responded (response_of 204 Map.empty None)))
        example_client ''/api/v1/documents''
        (no_options\<lparr>opt_method := Some POST, opt_body := JObj [(''name'', JStr ''Contract'')]\<rparr>))
      = TextBody ''<json>''
   \<and> fetch_log (snd (request (constant_env (Responded (response_of 204 Map.empty None)))
          example_client ''/api/v1/documents''
          (no_options\<lparr>opt_method := Some POST, opt_body := JBigInt 1\<rparr>) world0))
      = fetch_log world0"
proof -
  let ?e = "constant_env (Responded (response_of 204 Map.empty None))"
  let ?o0 = "no_options\<lparr>opt_method := Some POST, opt_body := JNum 0\<rparr>"
  let ?o1 = "no_options\<lparr>opt_method := Some POST, opt_body := JObj [(''name'', JStr ''Contract'')]\<rparr>"
  let ?o2 = "no_options\<lparr>opt_method := Some POST, opt_body := JBigInt 1\<rparr>"
  have b: "opt_noRetry ?o0 = Some True \<or> 0 \<le> maxRetries (retryConfig example_client)"
    "opt_noRetry ?o1 = Some True \<or> 0 \<le> maxRetries (retryConfig example_client)"
    "opt_noRetry ?o2 = Some True \<or> 0 \<le> maxRetries (retryConfig example_client)"
    "opt_noRetry no_options = Some True \<or> 0 \<le> maxRetries (retryConfig example_client)"
    by (simp_all add: example_client_def)
  have h0: "\<not> truthy (opt_body ?o0)" "opt_body ?o0 \<in> {JNum 0, JBool False, JStr [], JNull}"
    by simp_all
  have h1: "truthy (opt_body ?o1) \<and> JSON_stringify ?e (opt_body ?o1) = Serialized ''<json>''"
    by simp
  have h2: "truthy (opt_body ?o2) \<and> JSON_stringify ?e (opt_body ?o2)
              = StringifyThrows (ErrorObj ''TypeError'' ''Do not know how to serialize a BigInt'')"
    by simp
  from request_body_attached [OF b(1), of ?e "''/api/v1/documents''" world0] h0
    request_body_attached [OF b(2), of ?e "''/api/v1/documents''" world0] h1
    request_body_attached [OF b(3), of ?e "''/api/v1/documents''" world0] h2
    b(4)
  show ?thesis by blast
qed

subsection \<open>Successful responses\<close>

lemma json_typed_examples:
  "json_typed (response_of s [''content-type'' \<mapsto> ''application/json; charset=utf-8''] j)"
  "\<not> json_typed (response_of s [''content-type'' \<mapsto> ''text/html''] j)"
  "\<not> json_typed (response_of s Map.empty j)"
  by (simp_all add: json_typed_def response_of_def startsWith_def)

text \<open>
  Claim C6. Let a 2xx response be the outcome of attempt \<open>n\<close> of a request, \<open>n\<close> below the
  budget of attempts, the \<open>n\<close> earlier attempts having ended in retryable failures
  (\<open>n = 0\<close>: the response answers the first transport call), and let \<open>W\<close> be the world in
  which that attempt starts, after \<open>n\<close> transport calls and \<open>n\<close> sleeps. If the status is
  204 or the \<^verbatim>\<open>content-length\<close> header is \<^verbatim>\<open>"0"\<close>, the call yields "no value" and the body
  is not decoded; if the content type does not indicate JSON, it yields "no value" and
  the body is not decoded; if the content type indicates JSON and decoding fails, the one
  decode is swallowed and the call yields "no value". In each case the transport call of
  that attempt is the last one. (An attempt that ends otherwise than in a retryable
  failure ends the call, so a response is only ever seen after retryable failures.)
\<close>

theorem request_success_no_value:
  assumes "int n < (if opt_noRetry opts = Some True then 1 else maxRetries (retryConfig this) + 1)"
    and "\<forall>i<n. retryable_outcome (attempt_outcome e this ep opts w i)"
    and "attempt_outcome e this ep opts w n = Responded resp"
    and "ok resp"
  shows
    "(status resp = 204 \<or> resp_headers resp ''content-length'' = Some ''0'' \<longrightarrow>
        request e this ep opts w
          = (Inr JUndefined,
             (retried e this ep opts 0 n w)
               \<lparr>fetch_log := fetch_log (retried e this ep opts 0 n w) @ [request_call e this ep opts]\<rparr>))
   \<and> (\<not> (status resp = 204 \<or> resp_headers resp ''content-length'' = Some ''0'')
        \<and> \<not> json_typed resp \<longrightarrow>
        request e this ep opts w
          = (Inr JUndefined,
             (retried e this ep opts 0 n w)
               \<lparr>fetch_log := fetch_log (retried e this ep opts 0 n w) @ [request_call e this ep opts]\<rparr>))
   \<and> (\<not> (status resp = 204 \<or> resp_headers resp ''content-length'' = Some ''0'')
        \<and> json_typed resp \<and> json_result resp = None \<longrightarrow>
        request e this ep opts w
          = (Inr JUndefined,
             (retried e this ep opts 0 n w)
               \<lparr>fetch_log := fetch_log (retried e this ep opts 0 n w) @ [request_call e this ep opts],
                json_calls := Suc (json_calls (retried e this ep opts 0 n w))\<rparr>))
   \<and> fetch_log (retried e this ep opts 0 n w)
        = fetch_log w @ replicate n (request_call e this ep opts)
   \<and> length (sleep_log (retried e this ep opts 0 n w)) = length (sleep_log w) + n"
proof -
  let ?M = "if opt_noRetry opts = Some True then 1 else maxRetries (retryConfig this) + 1"
  let ?W = "retried e this ep opts 0 n w"
  let ?c = "request_call e this ep opts"
  let ?W1 = "?W\<lparr>fetch_log := fetch_log ?W @ [?c]\<rparr>"
  from attempt_outcome_Responded[OF assms(3)] obtain b where b: "request_body e opts = Inr b"
    by blast
  then have sb: "\<exists>b. request_body e opts = Inr b" by blast
  have lt: "int (0 + n) < ?M" using assms(1) by simp
  from request_loop_retried[OF assms(2) lt, of None] obtain le' where
    "request_loop e this ep opts ?M 0 None w = request_loop e this ep opts ?M (0 + n) le' ?W"
    by blast
  then have R: "request e this ep opts w = request_loop e this ep opts ?M n le' ?W"
    by (simp add: request_def)
  have out: "attempt_outcome e this ep opts ?W 0 = Responded resp"
    using retried_outcome[OF sb, of this ep 0 n w] assms(3) by simp
  have ra: "request_attempt e this ep opts ?M n ?W
              = process_outcome ''Request failed with status '' ''Request timeout'' e this ?M n
                  (Responded resp) ?W1"
    by (simp only: request_attempt_eq out attempt_logged_Inr[OF b])
  have fin: "request e this ep opts w = (r, w')"
    if "request_attempt e this ep opts ?M n ?W = (Finished r, w')" for r w'
    unfolding R using assms(1) that by (intro request_loop_finished)
  have a: "request e this ep opts w = (Inr JUndefined, ?W1)"
    if "status resp = 204 \<or> resp_headers resp ''content-length'' = Some ''0''"
    using that by (intro fin) (simp add: ra process_outcome_empty empty_response_def)
  have c: "request e this ep opts w = (Inr JUndefined, ?W1)"
    if "\<not> (status resp = 204 \<or> resp_headers resp ''content-length'' = Some ''0'')"
      "\<not> json_typed resp"
    using that assms(4)
    by (intro fin) (simp add: ra process_outcome_ok empty_response_def decoded_def note_decode_def)
  have d: "request e this ep opts w = (Inr JUndefined, ?W1\<lparr>json_calls := Suc (json_calls ?W)\<rparr>)"
    if "\<not> (status resp = 204 \<or> resp_headers resp ''content-length'' = Some ''0'')"
      "json_typed resp" "json_result resp = None"
    using that assms(4)
    by (intro fin)
       (simp add: ra process_outcome_ok empty_response_def decoded_def note_decode_def nullish_def)
  from a c d retried_log[OF sb, of this ep 0 n w] show ?thesis by blast
qed

text \<open>The scenario of the specification: two responses 500, then a 2xx response.\<close>

theorem request_success_no_value_witness:
  "request (scripted_env [Responded (response_of 500 Map.empty None),
                           Responded (response_of 500 Map.empty None)]
             (Responded (response_of 204
                [''content-type'' \<mapsto> ''application/json; charset=utf-8''] (Some (JObj [])))))
      example_client ''/api/v1/me'' no_options world0
    = (Inr JUndefined,
       (retried (scripted_env [Responded (response_of 500 Map.empty None),
                               Responded (response_of 500 Map.empty None)]
                  (Responded (response_of 204
                     [''content-type'' \<mapsto> ''application/json; charset=utf-8''] (Some (JObj [])))))
          example_client ''/api/v1/me'' no_options 0 2 world0)
         \<lparr>fetch_log := fetch_log (retried (scripted_env [Responded (response_of 500 Map.empty None),
                               Responded (response_of 500 Map.empty None)]
                  (Responded (response_of 204
                     [''content-type'' \<mapsto> ''application/json; charset=utf-8''] (Some (JObj [])))))
          example_client ''/api/v1/me'' no_options 0 2 world0) @
            [request_call (scripted_env [Responded (response_of 500 Map.empty None),
                               Responded (response_of 500 Map.empty None)]
                  (Responded (response_of 204
                     [''content-type'' \<mapsto> ''application/json; charset=utf-8''] (Some (JObj [])))))
               example_client ''/api/v1/me'' no_options]\<rparr>)
   \<and> json_calls (retried (scripted_env [Responded (response_of 500 Map.empty None),
                               Responded (response_of 500 Map.empty None)]
                  (Responded (response_of 204
                     [''content-type'' \<mapsto> ''application/json; charset=utf-8''] (Some (JObj [])))))
          example_client ''/api/v1/me'' no_options 0 2 world0) = 0
   \<and> fst (request (constant_env (Responded (response_of 200
        [''content-type'' \<mapsto> ''text/html''] (Some (JObj [])))))
      example_client ''/api/v1/me'' no_options world0) = Inr JUndefined
   \<and> json_calls (snd (request (constant_env (Responded (response_of 200
        [''content-type'' \<mapsto> ''text/html''] (Some (JObj [])))))
      example_client ''/api/v1/me'' no_options world0)) = 0
   \<and> fst (request (constant_env (Responded (response_of 200
        [''content-type'' \<mapsto> ''application/json; charset=utf-8''] None)))
      example_client ''/api/v1/me'' no_options world0) = Inr JUndefined
   \<and> json_calls (snd (request (constant_env (Responded (response_of 200
        [''content-type'' \<mapsto> ''application/json; charset=utf-8''] None)))
      example_client ''/api/v1/me'' no_options world0)) = 1"
proof -
  let ?r5 = "Responded (response_of 500 Map.empty None)"
  let ?r1 = "response_of 204 [''content-type'' \<mapsto> ''application/json; charset=utf-8''] (Some (JObj []))"
  let ?r2 = "response_of 200 [''content-type'' \<mapsto> ''text/html''] (Some (JObj []))"
  let ?r3 = "response_of 200 [''content-type'' \<mapsto> ''application/json; charset=utf-8''] None"
  let ?e1 = "scripted_env [?r5, ?r5] (Responded ?r1)"
  have b2: "int 2 < (if opt_noRetry no_options = Some True then 1
                     else maxRetries (retryConfig example_client) + 1)"
    and b0: "int 0 < (if opt_noRetry no_options = Some True then 1
                     else maxRetries (retryConfig example_client) + 1)"
    by (simp_all add: example_client_def no_options_def)
  have ro: "retryable_outcome ?r5"
    by (simp add: retryable_outcome_def response_of_def empty_response_def)
  have aw: "attempt_outcome ?e1 example_client ''/api/v1/me'' no_options v i
              = (if length (fetch_log v) + i < 2 then ?r5 else Responded ?r1)" for i v
    by (auto simp: attempt_outcome_def scripted_env_def less_Suc_eq numeral_2_eq_2)
  have ao: "attempt_outcome ?e1 example_client ''/api/v1/me'' no_options world0 i
              = (if i < 2 then ?r5 else Responded ?r1)" for i
    by (simp add: aw world0_def)
  have p1: "\<forall>i<2. retryable_outcome (attempt_outcome ?e1 example_client ''/api/v1/me'' no_options world0 i)"
    using ro by (simp add: ao)
  have f1: "attempt_outcome ?e1 example_client ''/api/v1/me'' no_options world0 2 = Responded ?r1"
    by (simp add: ao)
  have p0: "\<forall>i<0. retryable_outcome (attempt_outcome (constant_env (Responded r)) example_client
              ''/api/v1/me'' no_options world0 i)" for r
    by simp
  have f0: "attempt_outcome (constant_env (Responded r)) example_client ''/api/v1/me'' no_options world0 0
              = Responded r" for r
    by (simp add: attempt_outcome_def)
  have k: "ok ?r1" "ok ?r2" "ok ?r3" by (simp_all add: ok_def response_of_def)
  have h1: "status ?r1 = 204 \<or> resp_headers ?r1 ''content-length'' = Some ''0''"
    by (simp add: response_of_def)
  have h2: "\<not> (status ?r2 = 204 \<or> resp_headers ?r2 ''content-length'' = Some ''0'') \<and> \<not> json_typed ?r2"
    by (simp add: json_typed_examples) (simp add: response_of_def)
  have h3: "\<not> (status ?r3 = 204 \<or> resp_headers ?r3 ''content-length'' = Some ''0'')
        \<and> json_typed ?r3 \<and> json_result ?r3 = None"
    by (simp add: json_typed_examples) (simp add: response_of_def)
  have j: "json_calls (retried ?e1 example_client ''/api/v1/me'' no_options 0 2 world0) = 0"
    by (simp add: numeral_2_eq_2 note_decode_def aw attempt_logged_def sleep_backoff_def
        world0_def json_typed_examples)
  from request_success_no_value [OF b2 p1 f1 k(1)] h1
  have c1: "request ?e1 example_client ''/api/v1/me'' no_options world0
    = (Inr JUndefined,
       (retried ?e1 example_client ''/api/v1/me'' no_options 0 2 world0)
         \<lparr>fetch_log := fetch_log (retried ?e1 example_client ''/api/v1/me'' no_options 0 2 world0) @
            [request_call ?e1 example_client ''/api/v1/me'' no_options]\<rparr>)"
    by blast
  from request_success_no_value [OF b0 p0 f0 k(2)] h2
  have c2: "request (constant_env (Responded ?r2)) example_client ''/api/v1/me'' no_options world0
    = (Inr JUndefined, world0\<lparr>fetch_log := fetch_log world0 @
         [request_call (constant_env (Responded ?r2)) example_client ''/api/v1/me'' no_options]\<rparr>)"
    by simp
  from request_success_no_value [OF b0 p0 f0 k(3)] h3
  have c3: "request (constant_env (Responded ?r3)) example_client ''/api/v1/me'' no_options world0
    = (Inr JUndefined, world0\<lparr>fetch_log := fetch_log world0 @
         [request_call (constant_env (Responded ?r3)) example_client ''/api/v1/me'' no_options],
         json_calls := Suc (json_calls world0)\<rparr>)"
    by simp
  show ?thesis unfolding c1 c2 c3 using j by (simp add: world0_def)
qed

subsection \<open>Errors of non-2xx responses\<close>

lemma show_nat_404: "show_nat 404 = ''404''"
  by (simp add: show_nat.simps[of 404] show_nat.simps[of 40] show_nat.simps[of 4])




subsection \<open>Transport failures\<close>



lemma includes_ECONNRESET: "str_includes ''read ECONNRESET'' ''ECONNRESET''"
  by (simp add: startsWith_def)


text \<open>
  A thrown \<^verbatim>\<open>Error\<close> whose message names none of the five codes is not retried. This is
  the case of the \<^verbatim>\<open>TypeError\<close> with message \<open>fetch failed\<close>, which carries the code of
  the failure on its \<^verbatim>\<open>cause\<close> and not in its message: the call makes one transport call
  and raises an error that is not retryable.
\<close>

lemma request_fetch_failed_not_retried:
  "request (constant_env (Rejected (ErrorObj ''TypeError'' ''fetch failed''))) example_client
      ''/api/v1/me'' no_options world0
    = (Inl \<lparr>message = ''fetch failed'', statusCode = None, response = JUndefined,
            isRetryable = False\<rparr>,
       world0\<lparr>fetch_log :=
         [request_call (constant_env (Rejected (ErrorObj ''TypeError'' ''fetch failed'')))
            example_client ''/api/v1/me'' no_options]\<rparr>)"
proof -
  let ?e = "constant_env (Rejected (ErrorObj ''TypeError'' ''fetch failed''))"
  let ?c = "request_call ?e example_client ''/api/v1/me'' no_options"
  have oe: "outcome_error ''Request failed with status '' ''Request timeout''
              (Rejected (ErrorObj ''TypeError'' ''fetch failed''))
            = \<lparr>message = ''fetch failed'', statusCode = None, response = JUndefined,
               isRetryable = False\<rparr>"
    by (simp add: outcome_error_def transient_failure_def networkErrors_def startsWith_def)
  have "request_attempt ?e example_client ''/api/v1/me'' no_options 4 0 world0
          = (Finished (Inl \<lparr>message = ''fetch failed'', statusCode = None, response = JUndefined,
               isRetryable = False\<rparr>), world0\<lparr>fetch_log := [?c]\<rparr>)"
    unfolding request_attempt_eq
    by (simp add: attempt_outcome_def attempt_logged_def process_outcome_rejected oe world0_def)
  then have "request_loop ?e example_client ''/api/v1/me'' no_options 4 0 None world0
          = (Inl \<lparr>message = ''fetch failed'', statusCode = None, response = JUndefined,
               isRetryable = False\<rparr>, world0\<lparr>fetch_log := [?c]\<rparr>)"
    by (intro request_loop_finished) simp_all
  moreover have "maxRetries (retryConfig example_client) = 3" "opt_noRetry no_options = None"
    by (simp_all add: example_client_def no_options_def)
  ultimately show ?thesis by (simp add: request_def)
qed

subsection \<open>Multipart uploads\<close>

text \<open>
  Claim C8. An upload makes \<open>k\<close> transport calls, \<open>1 \<le> k \<le> maxRetries + 1\<close> (for
  \<open>maxRetries \<ge> 0\<close>). The \<open>i\<close>-th of them carries as its body the form at a new address
  of the heap of forms, allocated for that attempt, and that form holds one entry per blob
  of the given list under the field name; so no two attempts share a form. Each call is a
  \<open>POST\<close> whose only header is the authorization header. The call has no option that
  disables retry: when every outcome is a retryable failure, \<open>k = maxRetries + 1\<close>.
\<close>

theorem uploadFiles_fresh_form_per_attempt:
  "\<exists>r w' k. uploadFiles e this ep files fieldName w = (r, w')
     \<and> fetch_log w' = fetch_log w @
          map (\<lambda>i. upload_call this ep (length (formdata_heap w) + i)) [0..<k]
     \<and> formdata_heap w' = formdata_heap w @
          replicate k (map (Pair (nullish fieldName ''media'')) files)
     \<and> (\<forall>i<k. call_body (upload_call this ep (length (formdata_heap w) + i))
                  = FormBody (length (formdata_heap w) + i)
              \<and> call_method (upload_call this ep (length (formdata_heap w) + i)) = POST
              \<and> call_headers (upload_call this ep (length (formdata_heap w) + i))
                  = [''Authorization'' \<mapsto> ''Bearer '' @ secretKey this]
              \<and> call_headers (upload_call this ep (length (formdata_heap w) + i)) ''Content-Type''
                  = None)
     \<and> int k \<le> max 0 (maxRetries (retryConfig this) + 1)
     \<and> (0 \<le> maxRetries (retryConfig this) \<longrightarrow> 0 < k)
     \<and> ((\<forall>n c. retryable_outcome (fetch e n c)) \<longrightarrow>
          int k = max 0 (maxRetries (retryConfig this) + 1))"
proof -
  let ?M = "maxRetries (retryConfig this) + 1"
  let ?fn = "nullish fieldName ''media''"
  let ?R = "uploadFiles_loop e this ep files ?fn ?M 0 None w"
  from uploadFiles_loop_log[of e this ep files ?fn ?M 0 None w]
  obtain k where k:
    "fetch_log (snd ?R) = fetch_log w @ map (\<lambda>i. upload_call this ep (length (formdata_heap w) + i)) [0..<k]"
    "formdata_heap (snd ?R) = formdata_heap w @ replicate k (map (Pair ?fn) files)"
    "int k \<le> max 0 (?M - int 0)"
    "int 0 < ?M \<longrightarrow> 0 < k"
    "(\<forall>n c. retryable_outcome (fetch e n c)) \<longrightarrow> int k = max 0 (?M - int 0)"
    by blast
  have u: "uploadFiles e this ep files fieldName w = (fst ?R, snd ?R)"
    by (simp add: uploadFiles_def)
  have c: "\<forall>i<k. call_body (upload_call this ep (length (formdata_heap w) + i))
                  = FormBody (length (formdata_heap w) + i)
              \<and> call_method (upload_call this ep (length (formdata_heap w) + i)) = POST
              \<and> call_headers (upload_call this ep (length (formdata_heap w) + i))
                  = [''Authorization'' \<mapsto> ''Bearer '' @ secretKey this]
              \<and> call_headers (upload_call this ep (length (formdata_heap w) + i)) ''Content-Type''
                  = None"
    by (simp add: upload_call_def)
  have b: "int k \<le> max 0 ?M" "0 \<le> maxRetries (retryConfig this) \<longrightarrow> 0 < k"
    "(\<forall>n c. retryable_outcome (fetch e n c)) \<longrightarrow> int k = max 0 ?M"
    using k(3,4,5) by simp_all
  from u k(1,2) c b show ?thesis by blast
qed

theorem uploadFiles_fresh_form_per_attempt_witness:
  "0 \<le> maxRetries (retryConfig example_client)
   \<and> (\<forall>n c. retryable_outcome (fetch (constant_env (Responded (response_of 503 Map.empty None))) n c))
   \<and> (\<exists>r w'. uploadFiles (constant_env (Responded (response_of 503 Map.empty None))) example_client
                ''/api/v1/media/upload'' [Blob ''%PDF''] None world0 = (r, w')
          \<and> fetch_log w' = map (upload_call example_client ''/api/v1/media/upload'') [0, 1, 2, 3]
          \<and> formdata_heap w' = replicate 4 [(''media'', Blob ''%PDF'')])"
proof -
  let ?e = "constant_env (Responded (response_of 503 Map.empty None))"
  have h1: "0 \<le> maxRetries (retryConfig example_client)" by (simp add: example_client_def)
  have h2: "\<forall>n c. retryable_outcome (fetch ?e n c)"
    by (simp add: retryable_outcome_def response_of_def empty_response_def)
  from uploadFiles_fresh_form_per_attempt [of ?e example_client "''/api/v1/media/upload''" "[Blob ''%PDF'']" None world0]
  obtain r w' k where k: "uploadFiles ?e example_client ''/api/v1/media/upload'' [Blob ''%PDF''] None world0 = (r, w')"
    "fetch_log w' = fetch_log world0 @
          map (\<lambda>i. upload_call example_client ''/api/v1/media/upload'' (length (formdata_heap world0) + i)) [0..<k]"
    "formdata_heap w' = formdata_heap world0 @
          replicate k (map (Pair (nullish None ''media'')) [Blob ''%PDF''])"
    "(\<forall>n c. retryable_outcome (fetch ?e n c)) \<longrightarrow>
          int k = max 0 (maxRetries (retryConfig example_client) + 1)"
    by blast
  from k(4) h2 have k4: "k = 4" by (simp add: example_client_def)
  have u: "[0..<4] = [0, 1, 2, 3]" by (simp add: upt_rec)
  have "fetch_log w' = map (upload_call example_client ''/api/v1/media/upload'') [0, 1, 2, 3]"
    "formdata_heap w' = replicate 4 [(''media'', Blob ''%PDF'')]"
    using k(2,3) unfolding k4 u by (simp_all add: world0_def nullish_def)
  with k(1) h1 h2 show ?thesis by blast
qed

end
